theory Spec2Isabelle
  imports Main
begin

section \<open>Values held by the Realtime Database and handed to it\<close>

text \<open>
  The store is a JSON tree. A node is a string, a number, a boolean or an object; an
  object maps child names to nodes, and a child that is missing and a child that is
  null are the same thing (\<open>None\<close>).
\<close>

datatype jval = JStr string | JNum int | JBool bool | JObj "string \<Rightarrow> jval option"

type_synonym jobject = "string \<Rightarrow> jval option"

text \<open>
  A property of an object literal passed to \<^verbatim>\<open>update\<close>: JavaScript tells
  \<^verbatim>\<open>undefined\<close> (reading a property the object does not have) from
  \<^verbatim>\<open>null\<close>.
\<close>

datatype jsvalue = Undefined | Null | Val jval

definition get_prop :: "jobject \<Rightarrow> string \<Rightarrow> jsvalue" where
  \<comment> \<open>\<^verbatim>\<open>currentUserData.k\<close>\<close>
  "get_prop obj k = (case obj k of None \<Rightarrow> Undefined | Some v \<Rightarrow> Val v)"

fun is_undefined :: "jsvalue \<Rightarrow> bool" where
  "is_undefined Undefined = True"
| "is_undefined Null = False"
| "is_undefined (Val v) = False"

text \<open>
  What a \<^verbatim>\<open>throw\<close> or a rejected promise carries: an \<^verbatim>\<open>Error\<close> object with
  its name and message, or some value that is not an \<^verbatim>\<open>Error\<close>. The
  \<^verbatim>\<open>stack\<close> string of an error, which only the runtime knows, is left out.
\<close>

datatype thrown = Error (err_name: string) (err_message: string) | NonError

section \<open>Stripe objects and events\<close>

text \<open>
  The fields of \<^verbatim>\<open>Stripe.Subscription\<close> and \<^verbatim>\<open>Stripe.Invoice\<close> that the
  handlers read. \<open>sub_items\<close> lists \<^verbatim>\<open>items.data[i].price.id\<close> in order.
\<close>

record subscription =
  sub_id :: string
  sub_customer :: string
  sub_status :: string
  sub_items :: "string list"
  current_period_end :: int
  cancel_at_period_end :: bool
  trial_end :: "int option"

record invoice =
  inv_id :: string
  inv_customer :: string
  inv_status :: "string option"
  currency :: string
  amount_paid :: int
  hosted_invoice_url :: "string option"
  invoice_pdf :: "string option"
  created :: int
  billing_reason :: "string option"

text \<open>
  \<^verbatim>\<open>Stripe.Event\<close> is a union discriminated by \<^verbatim>\<open>event.type\<close>; the
  \<^verbatim>\<open>switch\<close> of the webhook names five of its members, every other type is
  \<open>OtherEvent\<close> with its type string.
\<close>

datatype stripe_event =
    CustomerSubscriptionCreated subscription
  | CustomerSubscriptionUpdated subscription
  | CustomerSubscriptionDeleted subscription
  | InvoicePaid invoice
  | InvoicePaymentFailed invoice
  | OtherEvent string

section \<open>The store\<close>

datatype access =
    Query string
  | ReadUser string
  | UpdateUser string
  | SetInvoice string string

text \<open>
  \<open>users\<close> is the \<^verbatim>\<open>users\<close> node, \<open>user_ids\<close> the order in which a query
  lists its children, \<open>trace\<close> the requests sent so far. A handler sends at most three
  requests, one after the other; \<open>rejects d n\<close> is the error with which the store rejects
  the request number \<open>n\<close> of a call (the first is number 0), or \<open>None\<close> when the store
  answers it. The promise of a rejected request rejects, and \<^verbatim>\<open>await\<close> throws the
  error. A store that cannot be reached does not reject: the client keeps the request
  pending and the call sends no response; such calls are not modelled.
\<close>

record db =
  users :: "string \<Rightarrow> jobject option"
  user_ids :: "string list"
  rejects :: "nat \<Rightarrow> thrown option"
  trace :: "access list"

definition matches :: "db \<Rightarrow> string \<Rightarrow> string \<Rightarrow> bool" where
  "matches d customerId k =
     (case users d k of
        None \<Rightarrow> False
      | Some u \<Rightarrow> u ''stripeCustomerId'' = Some (JStr customerId))"

definition query_by_customer :: "nat \<Rightarrow> string \<Rightarrow> db \<Rightarrow> (thrown + string list) \<times> db" where
  \<comment> \<open>\<^verbatim>\<open>usersRef.orderByChild('stripeCustomerId').equalTo(customerId).once('value')\<close>;
      the result is \<^verbatim>\<open>Object.keys(snapshot.val())\<close>, empty when
      \<^verbatim>\<open>snapshot.exists()\<close> is false\<close>
  "query_by_customer n customerId d =
     (let d' = d\<lparr>trace := trace d @ [Query customerId]\<rparr> in
      case rejects d n of
        Some e \<Rightarrow> (Inl e, d')
      | None \<Rightarrow> (Inr (filter (matches d customerId) (user_ids d)), d'))"

definition read_user :: "nat \<Rightarrow> string \<Rightarrow> db \<Rightarrow> (thrown + jobject option) \<times> db" where
  \<comment> \<open>\<^verbatim>\<open>(await userRef.once('value')).val()\<close>\<close>
  "read_user n userId d =
     (let d' = d\<lparr>trace := trace d @ [ReadUser userId]\<rparr> in
      case rejects d n of
        Some e \<Rightarrow> (Inl e, d')
      | None \<Rightarrow> (Inr (users d userId), d'))"

fun write_prop :: "string \<times> jsvalue \<Rightarrow> jobject \<Rightarrow> jobject" where
  "write_prop (k, Val v) node = node(k \<mapsto> v)"
| "write_prop (k, Null) node = node(k := None)"
| "write_prop (k, Undefined) node = node"

definition undefined_error :: thrown where
  \<comment> \<open>the library's message goes on with the path of the undefined property\<close>
  "undefined_error = Error ''Error'' ''update failed: values argument contains undefined''"

definition ref_update ::
  "jobject \<Rightarrow> (string \<times> jsvalue) list \<Rightarrow> jobject \<Rightarrow> thrown + jobject" where
  \<comment> \<open>\<^verbatim>\<open>update({...spread, k1: v1, ...})\<close> of the Firebase library on a node: the
      library validates the argument first and throws when a property is undefined;
      otherwise the named children are overwritten (a null deletes the child) and every
      other child of the node stays. The properties a spread copies from an object read
      from the store are never undefined.\<close>
  "ref_update spread props node =
     (if list_ex (\<lambda>kv. is_undefined (snd kv)) props then Inl undefined_error
      else Inr (fold write_prop props (node ++ spread)))"

definition node_of :: "db \<Rightarrow> string \<Rightarrow> jobject" where
  "node_of d userId = (case users d userId of None \<Rightarrow> Map.empty | Some u \<Rightarrow> u)"

definition store_user :: "string \<Rightarrow> jobject \<Rightarrow> db \<Rightarrow> db" where
  "store_user userId node d =
     d\<lparr>users := (users d)(userId \<mapsto> node),
       user_ids := (if userId \<in> set (user_ids d) then user_ids d else user_ids d @ [userId])\<rparr>"

definition update_user ::
  "nat \<Rightarrow> string \<Rightarrow> jobject \<Rightarrow> (string \<times> jsvalue) list \<Rightarrow> db \<Rightarrow> (thrown + unit) \<times> db" where
  \<comment> \<open>\<^verbatim>\<open>await userRef.update({...})\<close>; an argument that the library refuses is not
      sent\<close>
  "update_user n userId spread props d =
     (case ref_update spread props (node_of d userId) of
        Inl e \<Rightarrow> (Inl e, d)
      | Inr node \<Rightarrow>
          (let d' = d\<lparr>trace := trace d @ [UpdateUser userId]\<rparr> in
           case rejects d n of
             Some e \<Rightarrow> (Inl e, d')
           | None \<Rightarrow> (Inr (), store_user userId node d')))"

definition put_invoice :: "string \<Rightarrow> jobject \<Rightarrow> jobject \<Rightarrow> jobject" where
  "put_invoice invoiceId invoiceData u =
     u(''invoices'' \<mapsto>
         JObj ((case u ''invoices'' of Some (JObj m) \<Rightarrow> m | _ \<Rightarrow> Map.empty)
                 (invoiceId \<mapsto> JObj invoiceData)))"

definition set_invoice ::
  "nat \<Rightarrow> string \<Rightarrow> string \<Rightarrow> jobject \<Rightarrow> db \<Rightarrow> (thrown + unit) \<times> db" where
  \<comment> \<open>\<^verbatim>\<open>await userRef.child('invoices').child(invoice.id).set(invoiceData)\<close>\<close>
  "set_invoice n userId invoiceId invoiceData d =
     (let d' = d\<lparr>trace := trace d @ [SetInvoice userId invoiceId]\<rparr> in
      case rejects d n of
        Some e \<Rightarrow> (Inl e, d')
      | None \<Rightarrow>
          (Inr (),
           store_user userId (put_invoice invoiceId invoiceData (node_of d userId)) d'))"

section \<open>The webhook endpoint\<close>

text \<open>
  \<open>constructEvent\<close> is \<^verbatim>\<open>stripe.webhooks.constructEvent\<close> of the Stripe library:
  given the raw body, the signature header and the secret it returns the event or throws.
\<close>

record env =
  constructEvent :: "string \<Rightarrow> string \<Rightarrow> string \<Rightarrow> thrown + stripe_event"
  STRIPE_WEBHOOK_SECRET :: "string option"

record request =
  body :: string
  stripe_signature :: "string option"

datatype response_body = Received bool | ErrorBody (message: string) (code: string)

record response =
  status :: nat
  json :: response_body

definition or_empty :: "string option \<Rightarrow> string" where
  \<comment> \<open>\<^verbatim>\<open>x || ''\<close>\<close>
  "or_empty x = (case x of None \<Rightarrow> [] | Some s \<Rightarrow> s)"

definition verify :: "env \<Rightarrow> request \<Rightarrow> thrown + stripe_event" where
  "verify e req =
     constructEvent e (body req) (or_empty (stripe_signature req))
       (or_empty (STRIPE_WEBHOOK_SECRET e))"

definition not_raw_body :: thrown where
  \<comment> \<open>what the Stripe library throws when the payload is not the raw body; its message
      depends on the header\<close>
  "not_raw_body =
     Error ''StripeSignatureVerificationError''
       ''No signatures found matching the expected signature for payload''"

definition verify_parsed :: "env \<Rightarrow> request \<Rightarrow> thrown + stripe_event" where
  \<comment> \<open>\<^verbatim>\<open>stripe.webhooks.constructEvent(req.body, ...)\<close> in \<^verbatim>\<open>src/index.ts\<close> and
      \<^verbatim>\<open>part_001\<close>, where \<^verbatim>\<open>server.use(express.json())\<close> (line 45) comes before
      the route: \<^verbatim>\<open>express.raw\<close> then leaves \<^verbatim>\<open>req.body\<close> as it finds it, an
      object and not the bytes that were signed, and the library throws whatever the
      request is\<close>
  "verify_parsed e req = Inl not_raw_body"

definition no_user_found :: thrown where
  \<comment> \<open>\<^verbatim>\<open>new Error('No user found for customer')\<close>\<close>
  "no_user_found = Error ''Error'' ''No user found for customer''"

definition type_error :: thrown where
  \<comment> \<open>what reading a property of \<^verbatim>\<open>undefined\<close> or \<^verbatim>\<open>null\<close> throws\<close>
  "type_error = Error ''TypeError'' ''Cannot read properties of undefined''"

definition profile_props :: "jobject \<Rightarrow> (string \<times> jsvalue) list" where
  "profile_props currentUserData =
     [(''uid'', get_prop currentUserData ''uid''),
      (''displayName'', get_prop currentUserData ''displayName''),
      (''email'', get_prop currentUserData ''email''),
      (''createdAt'', get_prop currentUserData ''createdAt''),
      (''lastLoginAt'', get_prop currentUserData ''lastLoginAt''),
      (''summaryCount'', get_prop currentUserData ''summaryCount''),
      (''dailySummaryCount'', get_prop currentUserData ''dailySummaryCount''),
      (''dailySummaryResetTime'', get_prop currentUserData ''dailySummaryResetTime'')]"

definition subscription_data :: "subscription \<Rightarrow> string \<Rightarrow> jval" where
  \<comment> \<open>the object written under \<^verbatim>\<open>subscription\<close>; a null \<^verbatim>\<open>trial_end\<close> is no child\<close>
  "subscription_data subscription priceId =
     JObj (Map.empty
       (''subscriptionId'' \<mapsto> JStr (sub_id subscription),
        ''priceId'' \<mapsto> JStr priceId,
        ''status'' \<mapsto> JStr (sub_status subscription),
        ''currentPeriodEnd'' \<mapsto> JNum (current_period_end subscription),
        ''cancelAtPeriodEnd'' \<mapsto> JBool (cancel_at_period_end subscription),
        ''trialEnd'' := map_option JNum (trial_end subscription)))"

subsection \<open>The handlers of \<^verbatim>\<open>src/unnamed/part_000\<close>\<close>

definition subscription_upserted_000 :: "subscription \<Rightarrow> db \<Rightarrow> (thrown + unit) \<times> db" where
  "subscription_upserted_000 subscription d0 =
     (let customerId = sub_customer subscription in
      case query_by_customer 0 customerId d0 of
        (Inl e, d1) \<Rightarrow> (Inl e, d1)
      | (Inr [], d1) \<Rightarrow> (Inl no_user_found, d1)
      | (Inr (userId # _), d1) \<Rightarrow>
          (case read_user 1 userId d1 of
             (Inl e, d2) \<Rightarrow> (Inl e, d2)
           | (Inr None, d2) \<Rightarrow> (Inl type_error, d2)
           | (Inr (Some currentUserData), d2) \<Rightarrow>
               (case sub_items subscription of
                  [] \<Rightarrow> (Inl type_error, d2)
                | priceId # _ \<Rightarrow>
                    update_user 2 userId Map.empty
                      (profile_props currentUserData @
                       [(''plan'', Val (JStr
                           (if sub_status subscription = ''active''
                               \<or> sub_status subscription = ''trialing''
                            then ''pro'' else ''free''))),
                        (''stripeCustomerId'', Val (JStr customerId)),
                        (''subscription'', Val (subscription_data subscription priceId))])
                      d2)))"

definition subscription_deleted_000 :: "subscription \<Rightarrow> db \<Rightarrow> (thrown + unit) \<times> db" where
  "subscription_deleted_000 subscription d0 =
     (let customerId = sub_customer subscription in
      case query_by_customer 0 customerId d0 of
        (Inl e, d1) \<Rightarrow> (Inl e, d1)
      | (Inr [], d1) \<Rightarrow> (Inr (), d1)
      | (Inr (userId # _), d1) \<Rightarrow>
          (case read_user 1 userId d1 of
             (Inl e, d2) \<Rightarrow> (Inl e, d2)
           | (Inr None, d2) \<Rightarrow> (Inl type_error, d2)
           | (Inr (Some currentUserData), d2) \<Rightarrow>
               update_user 2 userId Map.empty
                 (profile_props currentUserData @
                  [(''plan'', Val (JStr ''free'')),
                   (''subscription'', Null)])
                 d2))"

definition invoice_data :: "invoice \<Rightarrow> jobject" where
  "invoice_data invoice =
     Map.empty
       (''status'' := map_option JStr (inv_status invoice),
        ''currency'' \<mapsto> JStr (currency invoice),
        ''amountPaid'' \<mapsto> JNum (amount_paid invoice),
        ''hostedInvoiceUrl'' := map_option JStr (hosted_invoice_url invoice),
        ''invoicePdf'' := map_option JStr (invoice_pdf invoice),
        ''created'' \<mapsto> JNum (created invoice))"

definition invoice_paid_000 :: "invoice \<Rightarrow> db \<Rightarrow> (thrown + unit) \<times> db" where
  \<comment> \<open>the first \<^verbatim>\<open>set\<close> is awaited bare, the second inside a
      \<^verbatim>\<open>try\<close> whose \<^verbatim>\<open>catch\<close> only logs\<close>
  "invoice_paid_000 invoice d0 =
     (let customerId = inv_customer invoice in
      case query_by_customer 0 customerId d0 of
        (Inl e, d1) \<Rightarrow> (Inl e, d1)
      | (Inr [], d1) \<Rightarrow> (Inr (), d1)
      | (Inr (userId # _), d1) \<Rightarrow>
          (let invoiceData = invoice_data invoice in
           case set_invoice 1 userId (inv_id invoice) invoiceData d1 of
             (Inl e, d2) \<Rightarrow> (Inl e, d2)
           | (Inr _, d2) \<Rightarrow>
               (case set_invoice 2 userId (inv_id invoice) invoiceData d2 of
                  (Inl e, d3) \<Rightarrow> (Inr (), d3)
                | (Inr _, d3) \<Rightarrow> (Inr (), d3))))"

definition invoice_payment_failed_000 :: "invoice \<Rightarrow> db \<Rightarrow> (thrown + unit) \<times> db" where
  "invoice_payment_failed_000 invoice d0 =
     (if billing_reason invoice = Some ''subscription_create'' then
        (let customerId = inv_customer invoice in
         case query_by_customer 0 customerId d0 of
           (Inl e, d1) \<Rightarrow> (Inl e, d1)
         | (Inr [], d1) \<Rightarrow> (Inr (), d1)
         | (Inr (userId # _), d1) \<Rightarrow>
             (case read_user 1 userId d1 of
                (Inl e, d2) \<Rightarrow> (Inl e, d2)
              | (Inr currentUserData, d2) \<Rightarrow>
                  update_user 2 userId
                    (case currentUserData of None \<Rightarrow> Map.empty | Some u \<Rightarrow> u)
                    [(''plan'', Val (JStr ''free'')),
                     (''subscription'', Null)]
                    d2))
      else (Inr (), d0))"

definition switch_000 :: "stripe_event \<Rightarrow> db \<Rightarrow> (thrown + unit) \<times> db" where
  "switch_000 event d =
     (case event of
        CustomerSubscriptionCreated subscription \<Rightarrow> subscription_upserted_000 subscription d
      | CustomerSubscriptionUpdated subscription \<Rightarrow> subscription_upserted_000 subscription d
      | CustomerSubscriptionDeleted subscription \<Rightarrow> subscription_deleted_000 subscription d
      | InvoicePaid invoice \<Rightarrow> invoice_paid_000 invoice d
      | InvoicePaymentFailed invoice \<Rightarrow> invoice_payment_failed_000 invoice d
      | OtherEvent t \<Rightarrow> (Inr (), d))"

definition catch_000 :: "thrown \<Rightarrow> response" where
  \<comment> \<open>\<^verbatim>\<open>err.message || 'Webhook signature verification failed'\<close> for an
      \<^verbatim>\<open>Error\<close>\<close>
  "catch_000 err =
     (case err of
        Error n m \<Rightarrow>
          \<lparr>status = 400,
           json = ErrorBody (if m = [] then ''Webhook signature verification failed'' else m)
                    ''WEBHOOK_SIGNATURE_ERROR''\<rparr>
      | NonError \<Rightarrow>
          \<lparr>status = 400,
           json = ErrorBody ''Unknown error occurred'' ''WEBHOOK_SIGNATURE_ERROR''\<rparr>)"

definition received :: response where
  \<comment> \<open>\<^verbatim>\<open>res.json({ received: true })\<close>\<close>
  "received = \<lparr>status = 200, json = Received True\<rparr>"

definition webhook_000 :: "env \<Rightarrow> request \<Rightarrow> db \<Rightarrow> response \<times> db" where
  "webhook_000 e req d =
     (case verify e req of
        Inl err \<Rightarrow> (catch_000 err, d)
      | Inr event \<Rightarrow>
          (case switch_000 event d of
             (Inl err, d') \<Rightarrow> (catch_000 err, d')
           | (Inr _, d') \<Rightarrow> (received, d')))"

subsection \<open>The handlers of \<^verbatim>\<open>src/index.ts\<close>\<close>

text \<open>
  The \<^verbatim>\<open>customer.subscription.deleted\<close> case of \<^verbatim>\<open>src/index.ts\<close> has the
  statements of the one in \<^verbatim>\<open>part_000\<close>, so \<open>subscription_deleted_000\<close> stands
  for both. There are no invoice cases. The route gets the body that
  \<^verbatim>\<open>express.json()\<close> has parsed (\<open>verify_parsed\<close>), so that the
  \<^verbatim>\<open>switch\<close> is never reached.
\<close>

definition subscription_upserted_index :: "subscription \<Rightarrow> db \<Rightarrow> (thrown + unit) \<times> db" where
  "subscription_upserted_index subscription d0 =
     (let customerId = sub_customer subscription in
      case query_by_customer 0 customerId d0 of
        (Inl e, d1) \<Rightarrow> (Inl e, d1)
      | (Inr [], d1) \<Rightarrow> (Inl no_user_found, d1)
      | (Inr (userId # _), d1) \<Rightarrow>
          (case read_user 1 userId d1 of
             (Inl e, d2) \<Rightarrow> (Inl e, d2)
           | (Inr None, d2) \<Rightarrow> (Inl type_error, d2)
           | (Inr (Some currentUserData), d2) \<Rightarrow>
               (case sub_items subscription of
                  [] \<Rightarrow> (Inl type_error, d2)
                | priceId # _ \<Rightarrow>
                    update_user 2 userId Map.empty
                      (profile_props currentUserData @
                       [(''plan'', Val (JStr
                           (if sub_status subscription = ''active''
                            then ''pro'' else ''free''))),
                        (''stripeCustomerId'', Val (JStr customerId)),
                        (''subscription'', Val (subscription_data subscription priceId))])
                      d2)))"

definition switch_index :: "stripe_event \<Rightarrow> db \<Rightarrow> (thrown + unit) \<times> db" where
  "switch_index event d =
     (case event of
        CustomerSubscriptionCreated subscription \<Rightarrow> subscription_upserted_index subscription d
      | CustomerSubscriptionUpdated subscription \<Rightarrow> subscription_upserted_index subscription d
      | CustomerSubscriptionDeleted subscription \<Rightarrow> subscription_deleted_000 subscription d
      | _ \<Rightarrow> (Inr (), d))"

definition catch_index :: "thrown \<Rightarrow> response" where
  "catch_index err =
     \<lparr>status = 400,
      json = ErrorBody ''Webhook signature verification failed'' ''WEBHOOK_SIGNATURE_ERROR''\<rparr>"

definition webhook_index :: "env \<Rightarrow> request \<Rightarrow> db \<Rightarrow> response \<times> db" where
  "webhook_index e req d =
     (case verify_parsed e req of
        Inl err \<Rightarrow> (catch_index err, d)
      | Inr event \<Rightarrow>
          (case switch_index event d of
             (Inl err, d') \<Rightarrow> (catch_index err, d')
           | (Inr _, d') \<Rightarrow> (received, d')))"

subsection \<open>The handlers of \<^verbatim>\<open>src/unnamed/part_001\<close>\<close>

text \<open>
  Both cases spread \<^verbatim>\<open>currentUserData\<close> into the argument of \<^verbatim>\<open>update\<close>;
  the \<^verbatim>\<open>catch\<close> is the one of \<^verbatim>\<open>src/index.ts\<close>, and so is the place of
  \<^verbatim>\<open>express.json()\<close>.
\<close>

definition subscription_upserted_001 :: "subscription \<Rightarrow> db \<Rightarrow> (thrown + unit) \<times> db" where
  "subscription_upserted_001 subscription d0 =
     (let customerId = sub_customer subscription in
      case query_by_customer 0 customerId d0 of
        (Inl e, d1) \<Rightarrow> (Inl e, d1)
      | (Inr [], d1) \<Rightarrow> (Inl no_user_found, d1)
      | (Inr (userId # _), d1) \<Rightarrow>
          (case read_user 1 userId d1 of
             (Inl e, d2) \<Rightarrow> (Inl e, d2)
           | (Inr currentUserData, d2) \<Rightarrow>
               (case sub_items subscription of
                  [] \<Rightarrow> (Inl type_error, d2)
                | priceId # _ \<Rightarrow>
                    update_user 2 userId
                      (case currentUserData of None \<Rightarrow> Map.empty | Some u \<Rightarrow> u)
                      [(''plan'', Val (JStr
                          (if sub_status subscription = ''active''
                           then ''pro'' else ''free''))),
                       (''subscription'', Val (subscription_data subscription priceId))]
                      d2)))"

definition subscription_deleted_001 :: "subscription \<Rightarrow> db \<Rightarrow> (thrown + unit) \<times> db" where
  "subscription_deleted_001 subscription d0 =
     (let customerId = sub_customer subscription in
      case query_by_customer 0 customerId d0 of
        (Inl e, d1) \<Rightarrow> (Inl e, d1)
      | (Inr [], d1) \<Rightarrow> (Inr (), d1)
      | (Inr (userId # _), d1) \<Rightarrow>
          (case read_user 1 userId d1 of
             (Inl e, d2) \<Rightarrow> (Inl e, d2)
           | (Inr currentUserData, d2) \<Rightarrow>
               update_user 2 userId
                 (case currentUserData of None \<Rightarrow> Map.empty | Some u \<Rightarrow> u)
                 [(''plan'', Val (JStr ''free'')),
                  (''subscription'', Null)]
                 d2))"

definition switch_001 :: "stripe_event \<Rightarrow> db \<Rightarrow> (thrown + unit) \<times> db" where
  "switch_001 event d =
     (case event of
        CustomerSubscriptionCreated subscription \<Rightarrow> subscription_upserted_001 subscription d
      | CustomerSubscriptionUpdated subscription \<Rightarrow> subscription_upserted_001 subscription d
      | CustomerSubscriptionDeleted subscription \<Rightarrow> subscription_deleted_001 subscription d
      | _ \<Rightarrow> (Inr (), d))"

definition webhook_001 :: "env \<Rightarrow> request \<Rightarrow> db \<Rightarrow> response \<times> db" where
  "webhook_001 e req d =
     (case verify_parsed e req of
        Inl err \<Rightarrow> (catch_index err, d)
      | Inr event \<Rightarrow>
          (case switch_001 event d of
             (Inl err, d') \<Rightarrow> (catch_index err, d')
           | (Inr _, d') \<Rightarrow> (received, d')))"

section \<open>Notions the properties are stated with\<close>

definition user_field :: "db \<Rightarrow> string \<Rightarrow> string \<Rightarrow> jval option" where
  \<comment> \<open>the child \<open>k\<close> of the record of user \<open>userId\<close>\<close>
  "user_field d userId k = (case users d userId of None \<Rightarrow> None | Some u \<Rightarrow> u k)"

definition child :: "jval option \<Rightarrow> string \<Rightarrow> jval option" where
  "child node k = (case node of Some (JObj m) \<Rightarrow> m k | _ \<Rightarrow> None)"

definition answered :: "db \<Rightarrow> nat list \<Rightarrow> bool" where
  \<comment> \<open>the store answers the requests of these numbers\<close>
  "answered d ns = list_all (\<lambda>n. rejects d n = None) ns"

definition first_match :: "db \<Rightarrow> string \<Rightarrow> string option" where
  \<comment> \<open>the user a handler works on: \<^verbatim>\<open>Object.keys(users)[0]\<close> of the lookup, when the
      store answers the requests of the call\<close>
  "first_match d customerId =
     (if answered d [0, 1, 2] then
        (case fst (query_by_customer 0 customerId d) of
           Inr (userId # _) \<Rightarrow> Some userId
         | _ \<Rightarrow> None)
      else None)"

definition requests_sent :: "db \<Rightarrow> db \<Rightarrow> nat" where
  \<comment> \<open>the number of requests sent between two states of the store\<close>
  "requests_sent d d' = length (trace d') - length (trace d)"

definition has_profile :: "jobject \<Rightarrow> bool" where
  \<comment> \<open>the eight properties the listing handlers copy are all there\<close>
  "has_profile u = (\<not> list_ex (\<lambda>kv. is_undefined (snd kv)) (profile_props u))"

definition mutation_column :: "stripe_event \<Rightarrow> string set" where
  \<comment> \<open>the columns Mutation and Plan rule of the table of transitions in section 4.2 of the
      specification\<close>
  "mutation_column event =
     (case event of
        CustomerSubscriptionCreated _ \<Rightarrow> {''subscription'', ''plan''}
      | CustomerSubscriptionUpdated _ \<Rightarrow> {''subscription'', ''plan''}
      | CustomerSubscriptionDeleted _ \<Rightarrow> {''subscription'', ''plan''}
      | InvoicePaid _ \<Rightarrow> {''invoices''}
      | InvoicePaymentFailed _ \<Rightarrow> {''subscription'', ''plan''}
      | OtherEvent _ \<Rightarrow> {})"

definition plan_values :: "jval option set" where
  "plan_values = {Some (JStr ''free''), Some (JStr ''pro'')}"

definition is_invoice_paid :: "stripe_event \<Rightarrow> bool" where
  "is_invoice_paid event = (case event of InvoicePaid _ \<Rightarrow> True | _ \<Rightarrow> False)"

definition upserted_subscription :: "stripe_event \<Rightarrow> subscription option" where
  \<comment> \<open>the subscription of a \<^verbatim>\<open>customer.subscription.created\<close> or
      \<^verbatim>\<open>customer.subscription.updated\<close> event\<close>
  "upserted_subscription event =
     (case event of
        CustomerSubscriptionCreated s \<Rightarrow> Some s
      | CustomerSubscriptionUpdated s \<Rightarrow> Some s
      | _ \<Rightarrow> None)"

definition event_customer :: "stripe_event \<Rightarrow> string option" where
  \<comment> \<open>the customer of the object an event of the five kinds carries\<close>
  "event_customer event =
     (case event of
        CustomerSubscriptionCreated s \<Rightarrow> Some (sub_customer s)
      | CustomerSubscriptionUpdated s \<Rightarrow> Some (sub_customer s)
      | CustomerSubscriptionDeleted s \<Rightarrow> Some (sub_customer s)
      | InvoicePaid i \<Rightarrow> Some (inv_customer i)
      | InvoicePaymentFailed i \<Rightarrow> Some (inv_customer i)
      | OtherEvent _ \<Rightarrow> None)"

subsection \<open>What each handler does to the record it finds\<close>

text \<open>
  \<open>upd_first ns customerId g d\<close> is the \<open>users\<close> node after a handler that looks the
  customer up in \<open>d\<close> and writes \<open>g u\<close> over the record \<open>u\<close> of the first match,
  or writes nothing when \<open>g u\<close> is \<open>None\<close> or when the store rejects one of the
  requests \<open>ns\<close>. The lemmas below show that every handler is of this form.
\<close>

definition upd_first ::
  "nat list \<Rightarrow> string \<Rightarrow> (jobject \<Rightarrow> jobject option) \<Rightarrow> db \<Rightarrow> (string \<Rightarrow> jobject option)" where
  "upd_first ns customerId g d =
     (if answered d ns then
        (case filter (matches d customerId) (user_ids d) of
           [] \<Rightarrow> users d
         | userId # _ \<Rightarrow>
             (case users d userId of
                None \<Rightarrow> users d
              | Some u \<Rightarrow>
                  (case g u of
                     None \<Rightarrow> users d
                   | Some u' \<Rightarrow> (users d)(userId \<mapsto> u'))))
      else users d)"

definition plan_of_000 :: "string \<Rightarrow> string" where
  "plan_of_000 st = (if st = ''active'' \<or> st = ''trialing'' then ''pro'' else ''free'')"

definition plan_of_index :: "string \<Rightarrow> string" where
  "plan_of_index st = (if st = ''active'' then ''pro'' else ''free'')"

definition upserted ::
  "(string \<Rightarrow> string) \<Rightarrow> bool \<Rightarrow> subscription \<Rightarrow> jobject \<Rightarrow> jobject option" where
  "upserted plan_of listed s u =
     (case sub_items s of
        [] \<Rightarrow> None
      | priceId # _ \<Rightarrow>
          if listed \<and> \<not> has_profile u then None
          else Some (u(''plan'' \<mapsto> JStr (plan_of (sub_status s)),
                       ''subscription'' \<mapsto> subscription_data s priceId)))"

definition downgraded :: "bool \<Rightarrow> jobject \<Rightarrow> jobject option" where
  "downgraded listed u =
     (if listed \<and> \<not> has_profile u then None
      else Some (u(''plan'' \<mapsto> JStr ''free'', ''subscription'' := None)))"

definition invoiced :: "invoice \<Rightarrow> jobject \<Rightarrow> jobject option" where
  "invoiced i u = Some (put_invoice (inv_id i) (invoice_data i) u)"

definition effect_000 :: "stripe_event \<Rightarrow> (string \<times> (jobject \<Rightarrow> jobject option)) option" where
  "effect_000 event =
     (case event of
        CustomerSubscriptionCreated s \<Rightarrow> Some (sub_customer s, upserted plan_of_000 True s)
      | CustomerSubscriptionUpdated s \<Rightarrow> Some (sub_customer s, upserted plan_of_000 True s)
      | CustomerSubscriptionDeleted s \<Rightarrow> Some (sub_customer s, downgraded True)
      | InvoicePaid i \<Rightarrow> Some (inv_customer i, invoiced i)
      | InvoicePaymentFailed i \<Rightarrow>
          if billing_reason i = Some ''subscription_create''
          then Some (inv_customer i, downgraded False) else None
      | OtherEvent _ \<Rightarrow> None)"

definition effect_index :: "stripe_event \<Rightarrow> (string \<times> (jobject \<Rightarrow> jobject option)) option" where
  "effect_index event =
     (case event of
        CustomerSubscriptionCreated s \<Rightarrow> Some (sub_customer s, upserted plan_of_index True s)
      | CustomerSubscriptionUpdated s \<Rightarrow> Some (sub_customer s, upserted plan_of_index True s)
      | CustomerSubscriptionDeleted s \<Rightarrow> Some (sub_customer s, downgraded True)
      | _ \<Rightarrow> None)"

definition effect_001 :: "stripe_event \<Rightarrow> (string \<times> (jobject \<Rightarrow> jobject option)) option" where
  "effect_001 event =
     (case event of
        CustomerSubscriptionCreated s \<Rightarrow> Some (sub_customer s, upserted plan_of_index False s)
      | CustomerSubscriptionUpdated s \<Rightarrow> Some (sub_customer s, upserted plan_of_index False s)
      | CustomerSubscriptionDeleted s \<Rightarrow> Some (sub_customer s, downgraded False)
      | _ \<Rightarrow> None)"

definition needed :: "stripe_event \<Rightarrow> nat list" where
  \<comment> \<open>the requests that come before the write has happened: lookup, read and update, or
      lookup and first write for \<^verbatim>\<open>invoice.paid\<close>\<close>
  "needed event = (if is_invoice_paid event then [0, 1] else [0, 1, 2])"

definition run_effect ::
  "nat list \<Rightarrow> (string \<times> (jobject \<Rightarrow> jobject option)) option \<Rightarrow> db
     \<Rightarrow> (string \<Rightarrow> jobject option)" where
  "run_effect ns eff d = (case eff of None \<Rightarrow> users d | Some (c, g) \<Rightarrow> upd_first ns c g d)"

definition stable :: "string \<Rightarrow> (jobject \<Rightarrow> jobject option) \<Rightarrow> bool" where
  \<comment> \<open>writing \<open>g u\<close> keeps the record a match of the customer, and \<open>g\<close> writes the same
      again over what it wrote\<close>
  "stable c g \<longleftrightarrow>
     (\<forall>u u'. u ''stripeCustomerId'' = Some (JStr c) \<longrightarrow> g u = Some u' \<longrightarrow>
        u' ''stripeCustomerId'' = Some (JStr c) \<and> g u' = Some u')"

subsection \<open>Sample data\<close>

definition sample_user :: jobject where
  "sample_user =
     Map.empty
       (''uid'' \<mapsto> JStr ''u1'',
        ''displayName'' \<mapsto> JStr ''Ada'',
        ''email'' \<mapsto> JStr ''ada@example.com'',
        ''createdAt'' \<mapsto> JNum 1,
        ''lastLoginAt'' \<mapsto> JNum 2,
        ''summaryCount'' \<mapsto> JNum 3,
        ''dailySummaryCount'' \<mapsto> JNum 1,
        ''dailySummaryResetTime'' \<mapsto> JNum 4,
        ''plan'' \<mapsto> JStr ''free'',
        ''stripeCustomerId'' \<mapsto> JStr ''cus_1'')"

definition sample_db :: db where
  "sample_db =
     \<lparr>users = Map.empty(''u1'' \<mapsto> sample_user), user_ids = [''u1''], rejects = (\<lambda>n. None), trace = []\<rparr>"

definition sample_subscription :: "string \<Rightarrow> string \<Rightarrow> string list \<Rightarrow> subscription" where
  "sample_subscription customerId st prices =
     \<lparr>sub_id = ''sub_1'', sub_customer = customerId, sub_status = st, sub_items = prices,
      current_period_end = 1700000000, cancel_at_period_end = False, trial_end = None\<rparr>"

definition sample_invoice :: "string \<Rightarrow> string \<Rightarrow> invoice" where
  "sample_invoice customerId reason =
     \<lparr>inv_id = ''in_1'', inv_customer = customerId, inv_status = Some ''paid'', currency = ''usd'',
      amount_paid = 900, hosted_invoice_url = None, invoice_pdf = None, created = 1700000000,
      billing_reason = Some reason\<rparr>"

definition sample_pro_user :: jobject where
  "sample_pro_user =
     sample_user
       (''plan'' \<mapsto> JStr ''pro'',
        ''subscription'' \<mapsto>
          subscription_data (sample_subscription ''cus_1'' ''trialing'' [''price_pro''])
            ''price_pro'')"

definition sample_pro_db :: db where
  "sample_pro_db =
     \<lparr>users = Map.empty(''u1'' \<mapsto> sample_pro_user), user_ids = [''u1''], rejects = (\<lambda>n. None),
      trace = []\<rparr>"

definition sample_down_db :: db where
  \<comment> \<open>the sample store while it rejects every request\<close>
  "sample_down_db =
     sample_db\<lparr>rejects := (\<lambda>n. Some (Error ''Error'' ''store unavailable''))\<rparr>"

definition sample_flaky_db :: db where
  \<comment> \<open>the sample store when it rejects the third request of a call only\<close>
  "sample_flaky_db =
     sample_db\<lparr>rejects := (\<lambda>n. if n = 2 then Some (Error ''Error'' ''store unavailable'')
                                else None)\<rparr>"

definition sample_planless_db :: db where
  \<comment> \<open>the sample store when the record has no \<^verbatim>\<open>plan\<close>\<close>
  "sample_planless_db =
     sample_db\<lparr>users := Map.empty(''u1'' \<mapsto> sample_user(''plan'' := None))\<rparr>"

definition stub_env :: "stripe_event \<Rightarrow> env" where
  \<comment> \<open>a Stripe library that accepts the signature \<open>''good''\<close> and then returns the event\<close>
  "stub_env event =
     \<lparr>constructEvent = (\<lambda>payload sig secret.
        if sig = ''good'' then Inr event
        else Inl (Error ''StripeSignatureVerificationError''
                    ''No signatures found matching the expected signature for payload'')),
      STRIPE_WEBHOOK_SECRET = Some ''whsec_test''\<rparr>"

definition signed_request :: request where
  "signed_request = \<lparr>body = ''{}'', stripe_signature = Some ''good''\<rparr>"

definition unsigned_request :: request where
  "unsigned_request = \<lparr>body = ''{}'', stripe_signature = None\<rparr>"

section \<open>Lemmas about the store and the handlers\<close>

lemma is_undefined_get_prop [simp]: "is_undefined (get_prop u k) = (u k = None)"
  by (simp add: get_prop_def split: option.splits)

lemma write_get_prop [simp]: "write_prop (k, get_prop u k) u = u"
  by (auto simp: get_prop_def split: option.splits)

lemma fold_write_profile [simp]: "fold write_prop (profile_props u) u = u"
  by (simp add: profile_props_def)

lemma has_profile_iff:
  "has_profile u \<longleftrightarrow> u ''uid'' \<noteq> None \<and> u ''displayName'' \<noteq> None \<and> u ''email'' \<noteq> None
     \<and> u ''createdAt'' \<noteq> None \<and> u ''lastLoginAt'' \<noteq> None \<and> u ''summaryCount'' \<noteq> None
     \<and> u ''dailySummaryCount'' \<noteq> None \<and> u ''dailySummaryResetTime'' \<noteq> None"
  by (simp add: has_profile_def profile_props_def)

lemma ref_update_profile:
  "ref_update Map.empty (profile_props u @ extra) u =
     (if has_profile u \<and> \<not> list_ex (\<lambda>kv. is_undefined (snd kv)) extra
      then Inr (fold write_prop extra u) else Inl undefined_error)"
  by (simp add: ref_update_def has_profile_def)

lemma map_add_same: "(u::jobject) ++ u = u"
  by (rule ext) (simp add: map_add_def split: option.splits)

lemma ref_update_spread:
  "\<not> list_ex (\<lambda>kv. is_undefined (snd kv)) extra \<Longrightarrow>
   ref_update u extra u = Inr (fold write_prop extra u)"
  by (simp add: ref_update_def map_add_same)

lemma first_match_in:
  "filter (matches d c) (user_ids d) = k # rest \<Longrightarrow>
   k \<in> set (user_ids d) \<and> (\<exists>u. users d k = Some u \<and> u ''stripeCustomerId'' = Some (JStr c))"
proof -
  assume a: "filter (matches d c) (user_ids d) = k # rest"
  have "k \<in> set (filter (matches d c) (user_ids d))"
    unfolding a by simp
  then show ?thesis by (auto simp: matches_def split: option.splits)
qed

lemma put_invoice_twice [simp]: "put_invoice i x (put_invoice i x u) = put_invoice i x u"
  by (rule ext) (simp add: put_invoice_def)

lemmas op_defs = query_by_customer_def read_user_def update_user_def set_invoice_def
  store_user_def node_of_def upd_first_def answered_def Let_def

lemma matched_customer:
  "u ''stripeCustomerId'' = Some (JStr c) \<Longrightarrow> u(''stripeCustomerId'' \<mapsto> JStr c) = u"
  by auto

lemma subscription_upserted_000_users:
  "users (snd (subscription_upserted_000 s d)) = upd_first [0, 1, 2] (sub_customer s) (upserted plan_of_000 True s) d"
  by (auto simp: subscription_upserted_000_def op_defs ref_update_profile upserted_def plan_of_000_def
      fun_upd_twist [of "''stripeCustomerId''"] matched_customer
      split: option.splits list.splits sum.splits prod.splits dest!: first_match_in)

lemma subscription_upserted_index_users:
  "users (snd (subscription_upserted_index s d)) = upd_first [0, 1, 2] (sub_customer s) (upserted plan_of_index True s) d"
  by (auto simp: subscription_upserted_index_def op_defs ref_update_profile upserted_def plan_of_index_def
      fun_upd_twist [of "''stripeCustomerId''"] matched_customer
      split: option.splits list.splits sum.splits prod.splits dest!: first_match_in)

lemma subscription_upserted_001_users:
  "users (snd (subscription_upserted_001 s d)) = upd_first [0, 1, 2] (sub_customer s) (upserted plan_of_index False s) d"
  by (auto simp: subscription_upserted_001_def op_defs ref_update_spread upserted_def plan_of_index_def
      split: option.splits list.splits sum.splits prod.splits dest!: first_match_in)

lemma subscription_deleted_000_users:
  "users (snd (subscription_deleted_000 s d)) = upd_first [0, 1, 2] (sub_customer s) (downgraded True) d"
  by (auto simp: subscription_deleted_000_def op_defs ref_update_profile downgraded_def
      split: option.splits list.splits sum.splits prod.splits dest!: first_match_in)

lemma subscription_deleted_001_users:
  "users (snd (subscription_deleted_001 s d)) = upd_first [0, 1, 2] (sub_customer s) (downgraded False) d"
  by (auto simp: subscription_deleted_001_def op_defs ref_update_spread downgraded_def
      split: option.splits list.splits sum.splits prod.splits dest!: first_match_in)

lemma invoice_payment_failed_000_users:
  "users (snd (invoice_payment_failed_000 i d)) =
     (if billing_reason i = Some ''subscription_create''
      then upd_first [0, 1, 2] (inv_customer i) (downgraded False) d else users d)"
  by (auto simp: invoice_payment_failed_000_def op_defs ref_update_spread downgraded_def
      split: option.splits list.splits sum.splits prod.splits dest!: first_match_in)

lemma invoice_paid_000_users:
  "users (snd (invoice_paid_000 i d)) = upd_first [0, 1] (inv_customer i) (invoiced i) d"
  by (auto simp: invoice_paid_000_def op_defs invoiced_def
      split: option.splits list.splits sum.splits prod.splits dest!: first_match_in)

lemma preserved_fields:
  "user_ids (snd (query_by_customer n c d)) = user_ids d"
  "rejects (snd (query_by_customer n c d)) = rejects d"
  "user_ids (snd (read_user n k d)) = user_ids d"
  "rejects (snd (read_user n k d)) = rejects d"
  "rejects (snd (update_user n k sp ps d)) = rejects d"
  "rejects (snd (set_invoice n k i x d)) = rejects d"
  by (auto simp: op_defs split: option.splits sum.splits)

lemma switch_000_users: "users (snd (switch_000 ev d)) = run_effect (needed ev) (effect_000 ev) d"
  by (cases ev)
    (simp_all add: switch_000_def effect_000_def run_effect_def needed_def is_invoice_paid_def
      subscription_upserted_000_users
      subscription_deleted_000_users invoice_paid_000_users invoice_payment_failed_000_users)

lemma switch_index_users: "users (snd (switch_index ev d)) = run_effect (needed ev) (effect_index ev) d"
  by (cases ev)
    (simp_all add: switch_index_def effect_index_def run_effect_def needed_def is_invoice_paid_def
      subscription_upserted_index_users
      subscription_deleted_000_users)

lemma switch_001_users: "users (snd (switch_001 ev d)) = run_effect (needed ev) (effect_001 ev) d"
  by (cases ev)
    (simp_all add: switch_001_def effect_001_def run_effect_def needed_def is_invoice_paid_def
      subscription_upserted_001_users
      subscription_deleted_001_users)

lemma handler_keeps:
  "user_ids (snd (subscription_upserted_000 s d)) = user_ids d \<and> rejects (snd (subscription_upserted_000 s d)) = rejects d"
  "user_ids (snd (subscription_upserted_index s d)) = user_ids d \<and> rejects (snd (subscription_upserted_index s d)) = rejects d"
  "user_ids (snd (subscription_upserted_001 s d)) = user_ids d \<and> rejects (snd (subscription_upserted_001 s d)) = rejects d"
  "user_ids (snd (subscription_deleted_000 s d)) = user_ids d \<and> rejects (snd (subscription_deleted_000 s d)) = rejects d"
  "user_ids (snd (subscription_deleted_001 s d)) = user_ids d \<and> rejects (snd (subscription_deleted_001 s d)) = rejects d"
  "user_ids (snd (invoice_paid_000 i d)) = user_ids d \<and> rejects (snd (invoice_paid_000 i d)) = rejects d"
  "user_ids (snd (invoice_payment_failed_000 i d)) = user_ids d \<and> rejects (snd (invoice_payment_failed_000 i d)) = rejects d"
  by (auto simp: subscription_upserted_000_def subscription_upserted_index_def subscription_upserted_001_def
      subscription_deleted_000_def subscription_deleted_001_def invoice_paid_000_def invoice_payment_failed_000_def
      op_defs ref_update_def
      split: option.splits list.splits sum.splits prod.splits if_splits dest!: first_match_in)

lemma switch_keeps:
  "user_ids (snd (switch_000 ev d)) = user_ids d \<and> rejects (snd (switch_000 ev d)) = rejects d"
  "user_ids (snd (switch_index ev d)) = user_ids d \<and> rejects (snd (switch_index ev d)) = rejects d"
  "user_ids (snd (switch_001 ev d)) = user_ids d \<and> rejects (snd (switch_001 ev d)) = rejects d"
  by (cases ev; simp add: switch_000_def switch_index_def switch_001_def handler_keeps)+

lemma upd_first_cong:
  "users d1 = users d \<Longrightarrow> user_ids d1 = user_ids d \<Longrightarrow> rejects d1 = rejects d \<Longrightarrow>
   upd_first ns c g d1 = upd_first ns c g d"
proof -
  assume a: "users d1 = users d" "user_ids d1 = user_ids d" "rejects d1 = rejects d"
  have "matches d1 c = matches d c"
    by (rule ext) (simp add: matches_def a)
  then show ?thesis
    by (simp add: upd_first_def answered_def a cong: option.case_cong list.case_cong)
qed

lemma upd_first_idem:
  assumes g: "stable c g"
    and d1: "users d1 = upd_first ns c g d"
    and ids: "user_ids d1 = user_ids d"
    and out: "rejects d1 = rejects d"
  shows "upd_first ns c g d1 = users d1"
proof (cases "answered d ns")
  case False
  then have "\<not> answered d1 ns" using out by (simp add: answered_def)
  then show ?thesis by (simp add: upd_first_def)
next
  case True
  then have ans: "answered d1 ns" using out by (simp add: answered_def)
  show ?thesis
  proof (cases "filter (matches d c) (user_ids d)")
    case Nil
    have same: "users d1 = users d"
      unfolding d1 using True Nil by (simp add: upd_first_def)
    have "upd_first ns c g d1 = upd_first ns c g d"
      using same ids out by (rule upd_first_cong)
    then show ?thesis using d1 by simp
  next
    case (Cons k rest)
    then obtain u where u: "users d k = Some u" "u ''stripeCustomerId'' = Some (JStr c)"
      using first_match_in by blast
    show ?thesis
    proof (cases "g u")
      case None
      have same: "users d1 = users d"
        unfolding d1 using True Cons u None by (simp add: upd_first_def)
      have "upd_first ns c g d1 = upd_first ns c g d"
        using same ids out by (rule upd_first_cong)
      then show ?thesis using d1 by simp
    next
      case (Some u')
      have us: "users d1 = (users d)(k \<mapsto> u')"
        unfolding d1 using True Cons u Some by (simp add: upd_first_def)
      have u': "u' ''stripeCustomerId'' = Some (JStr c)" "g u' = Some u'"
        using g [unfolded stable_def, rule_format, OF u(2) Some] by simp_all
      have "matches d1 c = matches d c"
        using us u u' by (auto simp: matches_def fun_eq_iff split: option.splits)
      then have "filter (matches d1 c) (user_ids d1) = k # rest"
        using Cons ids by simp
      then show ?thesis
        using us u' ans by (simp add: upd_first_def)
    qed
  qed
qed

lemma upd_first_cases:
  "upd_first ns c g d = users d \<or>
   (\<exists>k u u'. users d k = Some u \<and> u ''stripeCustomerId'' = Some (JStr c) \<and> g u = Some u'
      \<and> upd_first ns c g d = (users d)(k \<mapsto> u'))"
  by (force simp: upd_first_def split: option.splits list.splits dest!: first_match_in)

lemma has_profile_upd [simp]:
  "has_profile (u(''plan'' \<mapsto> p)) = has_profile u"
  "has_profile (u(''subscription'' := x)) = has_profile u"
  by (simp_all add: has_profile_iff)

lemma stable_upserted: "stable (sub_customer s) (upserted f b s)"
  by (auto simp: stable_def upserted_def split: list.splits if_splits)

lemma stable_downgraded: "stable c (downgraded b)"
  by (auto simp: stable_def downgraded_def split: list.splits if_splits)

lemma stable_invoiced: "stable c (invoiced i)"
  by (auto simp: stable_def invoiced_def put_invoice_def)

lemma stable_effects:
  "effect_000 ev = Some (c, g) \<Longrightarrow> stable c g"
  "effect_index ev = Some (c, g) \<Longrightarrow> stable c g"
  "effect_001 ev = Some (c, g) \<Longrightarrow> stable c g"
  by (auto simp: effect_000_def effect_index_def effect_001_def stable_upserted stable_downgraded
      stable_invoiced split: stripe_event.splits if_splits)

lemma run_effect_idem:
  assumes "\<And>c g. eff = Some (c, g) \<Longrightarrow> stable c g"
    and "users d1 = run_effect ns eff d" "user_ids d1 = user_ids d" "rejects d1 = rejects d"
  shows "run_effect ns eff d1 = users d1"
proof (cases eff)
  case None
  then show ?thesis by (simp add: run_effect_def)
next
  case (Some cg)
  obtain c g where cg: "cg = (c, g)" by (cases cg)
  have "stable c g"
    using assms(1) Some cg by simp
  moreover have "users d1 = upd_first ns c g d"
    using assms(2) Some cg by (simp add: run_effect_def)
  ultimately have "upd_first ns c g d1 = users d1"
    using assms(3,4) by (rule upd_first_idem)
  then show ?thesis using Some cg by (simp add: run_effect_def)
qed

lemma webhook_db:
  "snd (webhook_000 e req d) =
     (case verify e req of Inl err \<Rightarrow> d | Inr ev \<Rightarrow> snd (switch_000 ev d))"
  "snd (webhook_index e req d) = d"
  "snd (webhook_001 e req d) = d"
  by (simp_all add: webhook_000_def webhook_index_def webhook_001_def verify_parsed_def
      split: sum.splits prod.splits)

lemma switch_000_idem:
  "users (snd (switch_000 ev (snd (switch_000 ev d)))) = users (snd (switch_000 ev d))"
  unfolding switch_000_users [of ev "snd (switch_000 ev d)"]
  by (rule run_effect_idem [where d = d])
    (simp_all add: stable_effects switch_000_users switch_keeps)

lemma switch_index_idem:
  "users (snd (switch_index ev (snd (switch_index ev d)))) = users (snd (switch_index ev d))"
  unfolding switch_index_users [of ev "snd (switch_index ev d)"]
  by (rule run_effect_idem [where d = d])
    (simp_all add: stable_effects switch_index_users switch_keeps)

lemma switch_001_idem:
  "users (snd (switch_001 ev (snd (switch_001 ev d)))) = users (snd (switch_001 ev d))"
  unfolding switch_001_users [of ev "snd (switch_001 ev d)"]
  by (rule run_effect_idem [where d = d])
    (simp_all add: stable_effects switch_001_users switch_keeps)

lemma run_effect_cases:
  "run_effect ns eff d = users d \<or>
   (\<exists>c g k u u'. eff = Some (c, g) \<and> users d k = Some u
      \<and> u ''stripeCustomerId'' = Some (JStr c) \<and> g u = Some u'
      \<and> run_effect ns eff d = (users d)(k \<mapsto> u'))"
proof (cases eff)
  case None
  then show ?thesis by (simp add: run_effect_def)
next
  case (Some cg)
  obtain c g where cg: "cg = (c, g)" by (cases cg)
  from upd_first_cases [of ns c g d] show ?thesis
    unfolding Some cg run_effect_def by auto
qed

lemma effect_frame:
  assumes "k \<notin> mutation_column ev" and "g u = Some u'"
  shows "effect_000 ev = Some (c, g) \<Longrightarrow> u' k = u k"
    and "effect_index ev = Some (c, g) \<Longrightarrow> u' k = u k"
    and "effect_001 ev = Some (c, g) \<Longrightarrow> u' k = u k"
  using assms
  by (auto simp: effect_000_def effect_index_def effect_001_def mutation_column_def upserted_def
      downgraded_def invoiced_def put_invoice_def
      split: stripe_event.splits if_splits list.splits)

lemma run_effect_frame:
  assumes "\<And>c g u u'. eff = Some (c, g) \<Longrightarrow> g u = Some u' \<Longrightarrow> u' k = u k"
    and "users d' = run_effect ns eff d"
  shows "user_field d' userId k = user_field d userId k"
proof -
  from run_effect_cases [of ns eff d] show ?thesis
  proof
    assume "run_effect ns eff d = users d"
    then show ?thesis using assms(2) by (simp add: user_field_def)
  next
    assume "\<exists>c g k u u'. eff = Some (c, g) \<and> users d k = Some u
      \<and> u ''stripeCustomerId'' = Some (JStr c) \<and> g u = Some u'
      \<and> run_effect ns eff d = (users d)(k \<mapsto> u')"
    then obtain c g k0 u u' where h: "eff = Some (c, g)" "users d k0 = Some u" "g u = Some u'"
      "run_effect ns eff d = (users d)(k0 \<mapsto> u')" by blast
    have "u' k = u k" using assms(1) h(1,3) by blast
    then show ?thesis using assms(2) h(2,4) by (simp add: user_field_def)
  qed
qed

lemma run_effect_dom:
  "users d' = run_effect ns eff d \<Longrightarrow> (users d' userId = None) = (users d userId = None)"
  using run_effect_cases [of ns eff d] by (auto split: if_splits)

lemma effect_plan:
  "effect_000 ev = Some (c, g) \<Longrightarrow> g u = Some u' \<Longrightarrow>
     (if is_invoice_paid ev then u' ''plan'' = u ''plan'' else u' ''plan'' \<in> plan_values)"
  by (auto simp: effect_000_def is_invoice_paid_def plan_values_def upserted_def downgraded_def
      invoiced_def put_invoice_def plan_of_000_def
      split: stripe_event.splits if_splits list.splits)

lemma first_match_Some:
  assumes "first_match d c = Some k"
  shows "answered d [0, 1, 2]" and "\<exists>rest. filter (matches d c) (user_ids d) = k # rest"
    and "\<exists>u. users d k = Some u \<and> u ''stripeCustomerId'' = Some (JStr c)"
proof -
  from assms show o: "answered d [0, 1, 2]"
    by (auto simp: first_match_def split: if_splits)
  from assms o show f: "\<exists>rest. filter (matches d c) (user_ids d) = k # rest"
    by (auto simp: first_match_def answered_def query_by_customer_def Let_def split: list.splits)
  then show "\<exists>u. users d k = Some u \<and> u ''stripeCustomerId'' = Some (JStr c)"
    using first_match_in by blast
qed

lemma no_match:
  assumes "fst (query_by_customer 0 c d) = Inr []"
  shows "rejects d 0 = None" and "filter (matches d c) (user_ids d) = []"
  using assms by (auto simp: query_by_customer_def Let_def split: option.splits)

lemma catch_000_status:
  "status (catch_000 err) = 400" "code (json (catch_000 err)) = ''WEBHOOK_SIGNATURE_ERROR''"
  by (cases err; simp add: catch_000_def)+

lemma subscription_data_priceId:
  "child (Some (subscription_data s p)) ''priceId'' = Some (JStr p)"
  by (simp add: child_def subscription_data_def)

lemma status_200_or_400:
  "status (fst (webhook_000 e req d)) = 200 \<or> status (fst (webhook_000 e req d)) = 400"
  by (auto simp: webhook_000_def catch_000_status received_def split: sum.splits prod.splits)

lemma webhook_parsed:
  "webhook_index e req d = (catch_index not_raw_body, d)"
  "webhook_001 e req d = (catch_index not_raw_body, d)"
  by (simp_all add: webhook_index_def webhook_001_def verify_parsed_def)


lemma small_nat:
  "n < (3::nat) \<longleftrightarrow> n = 0 \<or> n = Suc 0 \<or> n = 2"
  "n < (2::nat) \<longleftrightarrow> n = 0 \<or> n = Suc 0"
  "n < Suc (Suc (Suc 0)) \<longleftrightarrow> n = 0 \<or> n = Suc 0 \<or> n = 2"
  "n < Suc (Suc 0) \<longleftrightarrow> n = 0 \<or> n = Suc 0"
  by auto

lemma rejected_update_handlers:
  assumes "rejects d n = Some err"
  shows "n < requests_sent d (snd (subscription_upserted_000 s d)) \<Longrightarrow>
           (\<exists>x. fst (subscription_upserted_000 s d) = Inl x)
           \<and> users (snd (subscription_upserted_000 s d)) = users d"
    and "n < requests_sent d (snd (subscription_deleted_000 s d)) \<Longrightarrow>
           (\<exists>x. fst (subscription_deleted_000 s d) = Inl x)
           \<and> users (snd (subscription_deleted_000 s d)) = users d"
    and "n < requests_sent d (snd (invoice_payment_failed_000 i d)) \<Longrightarrow>
           (\<exists>x. fst (invoice_payment_failed_000 i d) = Inl x)
           \<and> users (snd (invoice_payment_failed_000 i d)) = users d"
  using assms
  by (auto simp: requests_sent_def subscription_upserted_000_def subscription_deleted_000_def
      invoice_payment_failed_000_def query_by_customer_def read_user_def update_user_def
      store_user_def Let_def small_nat
      split: option.splits list.splits sum.splits if_splits)

lemma rejected_invoice_paid:
  assumes "rejects d n = Some err" and "n < requests_sent d (snd (invoice_paid_000 i d))"
  shows "n \<noteq> 2 \<Longrightarrow> (\<exists>x. fst (invoice_paid_000 i d) = Inl x)
           \<and> users (snd (invoice_paid_000 i d)) = users d"
    and "n = 2 \<Longrightarrow> fst (invoice_paid_000 i d) = Inr ()"
  using assms
  by (auto simp: requests_sent_def invoice_paid_000_def query_by_customer_def set_invoice_def
      store_user_def Let_def small_nat
      split: option.splits list.splits sum.splits if_splits)

lemmas model_defs = webhook_000_def webhook_index_def webhook_001_def switch_000_def
  switch_index_def switch_001_def subscription_upserted_000_def subscription_upserted_index_def
  subscription_upserted_001_def subscription_deleted_000_def subscription_deleted_001_def
  invoice_paid_000_def invoice_payment_failed_000_def catch_000_def catch_index_def received_def
  verify_def verify_parsed_def not_raw_body_def or_empty_def query_by_customer_def read_user_def update_user_def set_invoice_def
  store_user_def node_of_def ref_update_def profile_props_def get_prop_def matches_def
  no_user_found_def type_error_def undefined_error_def user_field_def answered_def Let_def

lemmas sample_defs = sample_down_db_def sample_flaky_db_def sample_planless_db_def sample_db_def
  sample_user_def
  sample_pro_db_def sample_pro_user_def sample_subscription_def sample_invoice_def
  stub_env_def signed_request_def unsigned_request_def

section \<open>The claims\<close>



text \<open>
  C2. An update changes only the fields that the table of transitions lists for the kind
  of the event. Whatever the event, every other child of every user record, whatever its
  name, is after the call what it was before, and no record appears or disappears: the
  \<^verbatim>\<open>update\<close> overlays the named children on the stored record. This holds for
  the webhook of \<^verbatim>\<open>part_000\<close> and for the \<^verbatim>\<open>switch\<close> of
  \<^verbatim>\<open>src/index.ts\<close> and of \<^verbatim>\<open>part_001\<close>, whose routes change nothing
  at all.
\<close>

theorem updates_preserve_other_fields:
  assumes "verify e req = Inr ev" and "k \<notin> mutation_column ev"
  shows "user_field (snd (webhook_000 e req d)) userId k = user_field d userId k
     \<and> (users (snd (webhook_000 e req d)) userId = None) = (users d userId = None)
     \<and> user_field (snd (webhook_index e req d)) userId k = user_field d userId k
     \<and> user_field (snd (webhook_001 e req d)) userId k = user_field d userId k
     \<and> user_field (snd (switch_index ev d)) userId k = user_field d userId k
     \<and> user_field (snd (switch_001 ev d)) userId k = user_field d userId k"
proof -
  have "user_field (snd (switch_000 ev d)) userId k = user_field d userId k"
    by (rule run_effect_frame [where eff = "effect_000 ev" and ns = "needed ev"])
      (auto simp: switch_000_users dest: effect_frame(1) [OF assms(2)])
  moreover have "(users (snd (switch_000 ev d)) userId = None) = (users d userId = None)"
    by (rule run_effect_dom [where eff = "effect_000 ev" and ns = "needed ev"])
      (simp add: switch_000_users)
  moreover have "user_field (snd (switch_index ev d)) userId k = user_field d userId k"
    by (rule run_effect_frame [where eff = "effect_index ev" and ns = "needed ev"])
      (auto simp: switch_index_users dest: effect_frame(2) [OF assms(2)])
  moreover have "user_field (snd (switch_001 ev d)) userId k = user_field d userId k"
    by (rule run_effect_frame [where eff = "effect_001 ev" and ns = "needed ev"])
      (auto simp: switch_001_users dest: effect_frame(3) [OF assms(2)])
  ultimately show ?thesis using assms(1) by (simp add: webhook_db)
qed

theorem updates_preserve_other_fields_witness:
  "verify (stub_env (CustomerSubscriptionUpdated
             (sample_subscription ''cus_1'' ''active'' [''price_pro''])))
     signed_request
     = Inr (CustomerSubscriptionUpdated (sample_subscription ''cus_1'' ''active'' [''price_pro'']))
   \<and> ''email'' \<notin> mutation_column
         (CustomerSubscriptionUpdated (sample_subscription ''cus_1'' ''active'' [''price_pro'']))
   \<and> user_field
        (snd (webhook_000
          (stub_env (CustomerSubscriptionUpdated
             (sample_subscription ''cus_1'' ''active'' [''price_pro''])))
          signed_request sample_db)) ''u1'' ''email''
       = Some (JStr ''ada@example.com'')"
proof -
  let ?ev = "CustomerSubscriptionUpdated (sample_subscription ''cus_1'' ''active'' [''price_pro''])"
  have v: "verify (stub_env ?ev) signed_request = Inr ?ev"
    by (simp add: verify_def stub_env_def signed_request_def or_empty_def)
  have m: "''email'' \<notin> mutation_column ?ev"
    by (simp add: mutation_column_def)
  from updates_preserve_other_fields [OF v m, of sample_db "''u1''"] v m show ?thesis
    by (simp add: user_field_def sample_db_def sample_user_def)
qed

text \<open>
  C3. Delivering the same payload a second time, to a store that treats the requests of
  the second call as it treated those of the first, leaves the \<^verbatim>\<open>users\<close> node as
  the first delivery left it, for every event kind (so in particular the \<^verbatim>\<open>plan\<close> and
  \<^verbatim>\<open>subscription\<close> written for a subscription event), in the webhook of
  \<^verbatim>\<open>part_000\<close> and in the \<^verbatim>\<open>switch\<close> of \<^verbatim>\<open>src/index.ts\<close> and
  of \<^verbatim>\<open>part_001\<close>, whose routes change nothing at all.
\<close>

theorem redelivery_is_idempotent:
  "users (snd (webhook_000 e req (snd (webhook_000 e req d)))) = users (snd (webhook_000 e req d))
   \<and> users (snd (webhook_index e req (snd (webhook_index e req d))))
       = users (snd (webhook_index e req d))
   \<and> users (snd (webhook_001 e req (snd (webhook_001 e req d))))
       = users (snd (webhook_001 e req d))
   \<and> users (snd (switch_index ev (snd (switch_index ev d)))) = users (snd (switch_index ev d))
   \<and> users (snd (switch_001 ev (snd (switch_001 ev d)))) = users (snd (switch_001 ev d))"
  by (cases "verify e req")
    (simp_all add: webhook_db switch_000_idem switch_index_idem switch_001_idem)

text \<open>
  C4, as the code has it. When the store answers the lookup with no record, a
  \<^verbatim>\<open>customer.subscription.created\<close> or \<^verbatim>\<open>customer.subscription.updated\<close>
  event is answered with status 400, the message \<open>No user found for customer\<close> and the
  code \<open>WEBHOOK_SIGNATURE_ERROR\<close> (the only code the endpoint has; there is no code
  \<open>UserNotFound\<close>), and the three other kinds are answered with status 200 and
  \<^verbatim>\<open>{received: true}\<close>. In every case the \<^verbatim>\<open>users\<close> node is unchanged.
  The counterexample is a \<^verbatim>\<open>customer.subscription.created\<close> event for a customer
  that no record has.
\<close>

theorem unmatched_customer:
  assumes "verify e req = Inr ev"
    and "event_customer ev = Some c"
    and "fst (query_by_customer 0 c d) = Inr []"
  shows "users (snd (webhook_000 e req d)) = users d
     \<and> fst (webhook_000 e req d) =
         (case upserted_subscription ev of
            Some s \<Rightarrow>
              \<lparr>status = 400,
               json = ErrorBody ''No user found for customer'' ''WEBHOOK_SIGNATURE_ERROR''\<rparr>
          | None \<Rightarrow> \<lparr>status = 200, json = Received True\<rparr>)"
proof -
  note nm = no_match [OF assms(3)]
  show ?thesis
    using assms(1,2) nm
    by (cases ev)
      (simp_all add: webhook_000_def switch_000_def subscription_upserted_000_def
        subscription_deleted_000_def invoice_paid_000_def invoice_payment_failed_000_def
        query_by_customer_def event_customer_def upserted_subscription_def catch_000_def
        no_user_found_def received_def Let_def)
qed

theorem unmatched_customer_witness:
  "verify (stub_env (CustomerSubscriptionCreated
             (sample_subscription ''cus_9'' ''active'' [''price_pro''])))
     signed_request
     = Inr (CustomerSubscriptionCreated (sample_subscription ''cus_9'' ''active'' [''price_pro'']))
   \<and> event_customer
         (CustomerSubscriptionCreated (sample_subscription ''cus_9'' ''active'' [''price_pro'']))
       = Some ''cus_9''
   \<and> fst (query_by_customer 0 ''cus_9'' sample_db) = Inr []
   \<and> users (snd (webhook_000
         (stub_env (CustomerSubscriptionCreated
            (sample_subscription ''cus_9'' ''active'' [''price_pro''])))
         signed_request sample_db)) = users sample_db
   \<and> fst (webhook_000
         (stub_env (CustomerSubscriptionCreated
            (sample_subscription ''cus_9'' ''active'' [''price_pro''])))
         signed_request sample_db)
       = \<lparr>status = 400,
          json = ErrorBody ''No user found for customer'' ''WEBHOOK_SIGNATURE_ERROR''\<rparr>"
proof -
  let ?ev = "CustomerSubscriptionCreated (sample_subscription ''cus_9'' ''active'' [''price_pro''])"
  have v: "verify (stub_env ?ev) signed_request = Inr ?ev"
    by (simp add: verify_def stub_env_def signed_request_def or_empty_def)
  have c: "event_customer ?ev = Some ''cus_9''"
    by (simp add: event_customer_def sample_subscription_def)
  have q: "fst (query_by_customer 0 ''cus_9'' sample_db) = Inr []"
    by (simp add: query_by_customer_def matches_def sample_defs Let_def)
  have u: "upserted_subscription ?ev = Some (sample_subscription ''cus_9'' ''active'' [''price_pro''])"
    by (simp add: upserted_subscription_def)
  from unmatched_customer [OF v c q, unfolded u] v c q show ?thesis
    by simp
qed

theorem unmatched_upsert_code_counterexample:
  "fst (query_by_customer 0 ''cus_9'' sample_db) = Inr []
   \<and> json (fst (webhook_000
         (stub_env (CustomerSubscriptionCreated
            (sample_subscription ''cus_9'' ''active'' [''price_pro''])))
         signed_request sample_db))
       = ErrorBody ''No user found for customer'' ''WEBHOOK_SIGNATURE_ERROR''
   \<and> code (json (fst (webhook_000
         (stub_env (CustomerSubscriptionCreated
            (sample_subscription ''cus_9'' ''active'' [''price_pro''])))
         signed_request sample_db)))
       \<noteq> ''UserNotFound''"
  by (simp add: model_defs sample_defs)

text \<open>
  C5. An \<^verbatim>\<open>invoice.payment_failed\<close> event whose \<^verbatim>\<open>billing_reason\<close> is
  \<open>subscription_create\<close>, when the store answers the lookup with a first match, sets
  the \<^verbatim>\<open>plan\<close> of that record to \<open>free\<close> and removes its
  \<^verbatim>\<open>subscription\<close>; with any other \<^verbatim>\<open>billing_reason\<close> the store is not
  touched. In both cases the answer is status 200 with \<^verbatim>\<open>{received: true}\<close>.
\<close>

theorem trial_payment_failure_downgrades:
  assumes "verify e req = Inr (InvoicePaymentFailed i)"
  shows "(billing_reason i = Some ''subscription_create''
            \<and> first_match d (inv_customer i) = Some userId \<longrightarrow>
          fst (webhook_000 e req d) = \<lparr>status = 200, json = Received True\<rparr>
          \<and> user_field (snd (webhook_000 e req d)) userId ''plan'' = Some (JStr ''free'')
          \<and> user_field (snd (webhook_000 e req d)) userId ''subscription'' = None)
     \<and> (billing_reason i \<noteq> Some ''subscription_create'' \<longrightarrow>
          webhook_000 e req d = (\<lparr>status = 200, json = Received True\<rparr>, d))"
proof (intro conjI impI)
  assume a: "billing_reason i = Some ''subscription_create''
            \<and> first_match d (inv_customer i) = Some userId"
  from first_match_Some [of d "inv_customer i" userId] a
  obtain rest u where h: "answered d [0, 1, 2]"
      "filter (matches d (inv_customer i)) (user_ids d) = userId # rest"
      "users d userId = Some u"
    by blast
  have r: "webhook_000 e req d =
      (\<lparr>status = 200, json = Received True\<rparr>,
       store_user userId (u(''plan'' \<mapsto> JStr ''free'', ''subscription'' := None))
         (d\<lparr>trace := trace d @ [Query (inv_customer i), ReadUser userId, UpdateUser userId]\<rparr>))"
    using assms a h
    by (simp add: webhook_000_def switch_000_def invoice_payment_failed_000_def
        query_by_customer_def read_user_def update_user_def ref_update_def node_of_def
        received_def map_add_same answered_def Let_def)
  show "fst (webhook_000 e req d) = \<lparr>status = 200, json = Received True\<rparr>"
    by (simp add: r)
  show "user_field (snd (webhook_000 e req d)) userId ''plan'' = Some (JStr ''free'')"
    by (simp add: r user_field_def store_user_def)
  show "user_field (snd (webhook_000 e req d)) userId ''subscription'' = None"
    by (simp add: r user_field_def store_user_def)
next
  assume "billing_reason i \<noteq> Some ''subscription_create''"
  then show "webhook_000 e req d = (\<lparr>status = 200, json = Received True\<rparr>, d)"
    using assms
    by (simp add: webhook_000_def switch_000_def invoice_payment_failed_000_def received_def)
qed

theorem trial_payment_failure_downgrades_witness:
  "verify (stub_env (InvoicePaymentFailed (sample_invoice ''cus_1'' ''subscription_create'')))
     signed_request
     = Inr (InvoicePaymentFailed (sample_invoice ''cus_1'' ''subscription_create''))
   \<and> billing_reason (sample_invoice ''cus_1'' ''subscription_create'')
       = Some ''subscription_create''
   \<and> first_match sample_pro_db ''cus_1'' = Some ''u1''
   \<and> user_field sample_pro_db ''u1'' ''plan'' = Some (JStr ''pro'')
   \<and> user_field
        (snd (webhook_000
          (stub_env (InvoicePaymentFailed (sample_invoice ''cus_1'' ''subscription_create'')))
          signed_request sample_pro_db)) ''u1'' ''plan'' = Some (JStr ''free'')
   \<and> user_field
        (snd (webhook_000
          (stub_env (InvoicePaymentFailed (sample_invoice ''cus_1'' ''subscription_create'')))
          signed_request sample_pro_db)) ''u1'' ''subscription'' = None
   \<and> verify (stub_env (InvoicePaymentFailed (sample_invoice ''cus_1'' ''subscription_cycle'')))
     signed_request
     = Inr (InvoicePaymentFailed (sample_invoice ''cus_1'' ''subscription_cycle''))
   \<and> billing_reason (sample_invoice ''cus_1'' ''subscription_cycle'')
       \<noteq> Some ''subscription_create''
   \<and> webhook_000
        (stub_env (InvoicePaymentFailed (sample_invoice ''cus_1'' ''subscription_cycle'')))
        signed_request sample_pro_db
       = (\<lparr>status = 200, json = Received True\<rparr>, sample_pro_db)"
proof -
  let ?a = "sample_invoice ''cus_1'' ''subscription_create''"
  let ?b = "sample_invoice ''cus_1'' ''subscription_cycle''"
  have va: "verify (stub_env (InvoicePaymentFailed ?a)) signed_request = Inr (InvoicePaymentFailed ?a)"
    by (simp add: verify_def stub_env_def signed_request_def or_empty_def)
  have vb: "verify (stub_env (InvoicePaymentFailed ?b)) signed_request = Inr (InvoicePaymentFailed ?b)"
    by (simp add: verify_def stub_env_def signed_request_def or_empty_def)
  have ra: "billing_reason ?a = Some ''subscription_create''"
    by (simp add: sample_invoice_def)
  have rb: "billing_reason ?b \<noteq> Some ''subscription_create''"
    by (simp add: sample_invoice_def)
  have fm: "first_match sample_pro_db ''cus_1'' = Some ''u1''"
    by (simp add: first_match_def answered_def query_by_customer_def matches_def sample_defs
        Let_def)
  have p: "user_field sample_pro_db ''u1'' ''plan'' = Some (JStr ''pro'')"
    by (simp add: user_field_def sample_defs)
  have c: "inv_customer ?a = ''cus_1''"
    by (simp add: sample_invoice_def)
  note t = trial_payment_failure_downgrades [OF va, of sample_pro_db "''u1''", unfolded c]
    trial_payment_failure_downgrades [OF vb, of sample_pro_db "''u1''"]
  show ?thesis using va vb ra rb fm p t by blast
qed

text \<open>
  C6, as the code has it. When the store rejects a request of a call, the call is answered
  with status 400 and the code \<open>WEBHOOK_SIGNATURE_ERROR\<close>, the answer also given to a
  bad signature and to an unmatched customer, and the \<^verbatim>\<open>users\<close> node is
  unchanged; the one exception is the second write of an invoice, whose rejection the
  handler catches and logs: the call is then answered with status 200. The webhook of
  \<^verbatim>\<open>part_000\<close> answers 200 or 400 and nothing else, the routes of
  \<^verbatim>\<open>src/index.ts\<close> and \<^verbatim>\<open>part_001\<close> always 400: there is no 5xx answer.
  The counterexample is a subscription update whose lookup the store rejects.
\<close>

theorem rejected_request_is_status_400:
  assumes "verify e req = Inr ev"
    and "rejects d n = Some err"
    and "n < requests_sent d (snd (webhook_000 e req d))"
  shows "(\<not> (is_invoice_paid ev \<and> n = 2) \<longrightarrow>
            status (fst (webhook_000 e req d)) = 400
            \<and> code (json (fst (webhook_000 e req d))) = ''WEBHOOK_SIGNATURE_ERROR''
            \<and> users (snd (webhook_000 e req d)) = users d)
     \<and> (is_invoice_paid ev \<and> n = 2 \<longrightarrow>
            fst (webhook_000 e req d) = \<lparr>status = 200, json = Received True\<rparr>)
     \<and> status (fst (webhook_000 e' req' d')) \<in> {200, 400}
     \<and> status (fst (webhook_index e' req' d')) = 400
     \<and> status (fst (webhook_001 e' req' d')) = 400"
proof -
  have w: "webhook_000 e req d =
      (case switch_000 ev d of
         (Inl x, d') \<Rightarrow> (catch_000 x, d') | (Inr x, d') \<Rightarrow> (received, d'))"
    using assms(1) by (simp add: webhook_000_def)
  have sn: "snd (webhook_000 e req d) = snd (switch_000 ev d)"
    using assms(1) by (simp add: webhook_db)
  have sent: "n < requests_sent d (snd (switch_000 ev d))"
    using assms(3) by (simp only: sn)
  have thrown: "status (fst (webhook_000 e req d)) = 400
      \<and> code (json (fst (webhook_000 e req d))) = ''WEBHOOK_SIGNATURE_ERROR''
      \<and> users (snd (webhook_000 e req d)) = users d"
    if "(\<exists>x. fst (switch_000 ev d) = Inl x) \<and> users (snd (switch_000 ev d)) = users d"
    using that unfolding w by (cases "switch_000 ev d") (auto simp: catch_000_status)
  have a: "\<not> (is_invoice_paid ev \<and> n = 2) \<longrightarrow>
            status (fst (webhook_000 e req d)) = 400
            \<and> code (json (fst (webhook_000 e req d))) = ''WEBHOOK_SIGNATURE_ERROR''
            \<and> users (snd (webhook_000 e req d)) = users d"
  proof (cases ev)
    case (CustomerSubscriptionCreated s)
    then show ?thesis
      using rejected_update_handlers(1) [OF assms(2), of s] sent thrown
      by (simp add: switch_000_def)
  next
    case (CustomerSubscriptionUpdated s)
    then show ?thesis
      using rejected_update_handlers(1) [OF assms(2), of s] sent thrown
      by (simp add: switch_000_def)
  next
    case (CustomerSubscriptionDeleted s)
    then show ?thesis
      using rejected_update_handlers(2) [OF assms(2), of s] sent thrown
      by (simp add: switch_000_def)
  next
    case (InvoicePaid i)
    then show ?thesis
      using rejected_invoice_paid(1) [OF assms(2), of i] sent thrown
      by (simp add: switch_000_def is_invoice_paid_def)
  next
    case (InvoicePaymentFailed i)
    then show ?thesis
      using rejected_update_handlers(3) [OF assms(2), of i] sent thrown
      by (simp add: switch_000_def)
  next
    case (OtherEvent t)
    then show ?thesis
      using sent by (simp add: switch_000_def requests_sent_def)
  qed
  have b: "is_invoice_paid ev \<and> n = 2 \<longrightarrow>
            fst (webhook_000 e req d) = \<lparr>status = 200, json = Received True\<rparr>"
  proof (cases ev)
    case (InvoicePaid i)
    then show ?thesis
      using rejected_invoice_paid(2) [OF assms(2), of i] sent unfolding w
      by (cases "invoice_paid_000 i d") (auto simp: switch_000_def received_def)
  qed (simp_all add: is_invoice_paid_def)
  show ?thesis
    using a b status_200_or_400 [of e' req' d']
    by (simp add: webhook_parsed catch_index_def)
qed

theorem rejected_request_is_status_400_witness:
  "verify (stub_env (CustomerSubscriptionUpdated
         (sample_subscription ''cus_1'' ''active'' [''price_pro''])))
       signed_request
       = Inr (CustomerSubscriptionUpdated (sample_subscription ''cus_1'' ''active'' [''price_pro'']))
   \<and> rejects sample_down_db 0 = Some (Error ''Error'' ''store unavailable'')
   \<and> 0 < requests_sent sample_down_db (snd (webhook_000
         (stub_env (CustomerSubscriptionUpdated
            (sample_subscription ''cus_1'' ''active'' [''price_pro''])))
         signed_request sample_down_db))
   \<and> \<not> (is_invoice_paid
           (CustomerSubscriptionUpdated (sample_subscription ''cus_1'' ''active'' [''price_pro'']))
         \<and> (0::nat) = 2)
   \<and> status (fst (webhook_000
         (stub_env (CustomerSubscriptionUpdated
            (sample_subscription ''cus_1'' ''active'' [''price_pro''])))
         signed_request sample_down_db)) = 400
   \<and> verify (stub_env (InvoicePaid (sample_invoice ''cus_1'' ''subscription_cycle'')))
       signed_request
       = Inr (InvoicePaid (sample_invoice ''cus_1'' ''subscription_cycle''))
   \<and> rejects sample_flaky_db 2 = Some (Error ''Error'' ''store unavailable'')
   \<and> 2 < requests_sent sample_flaky_db (snd (webhook_000
         (stub_env (InvoicePaid (sample_invoice ''cus_1'' ''subscription_cycle'')))
         signed_request sample_flaky_db))
   \<and> is_invoice_paid (InvoicePaid (sample_invoice ''cus_1'' ''subscription_cycle''))
   \<and> fst (webhook_000
         (stub_env (InvoicePaid (sample_invoice ''cus_1'' ''subscription_cycle'')))
         signed_request sample_flaky_db)
       = \<lparr>status = 200, json = Received True\<rparr>"
proof -
  let ?u = "CustomerSubscriptionUpdated (sample_subscription ''cus_1'' ''active'' [''price_pro''])"
  let ?i = "InvoicePaid (sample_invoice ''cus_1'' ''subscription_cycle'')"
  have vu: "verify (stub_env ?u) signed_request = Inr ?u"
    and vi: "verify (stub_env ?i) signed_request = Inr ?i"
    by (simp_all add: verify_def stub_env_def signed_request_def or_empty_def)
  have ru: "rejects sample_down_db 0 = Some (Error ''Error'' ''store unavailable'')"
    and ri: "rejects sample_flaky_db 2 = Some (Error ''Error'' ''store unavailable'')"
    by (simp_all add: sample_defs)
  have su: "0 < requests_sent sample_down_db
      (snd (webhook_000 (stub_env ?u) signed_request sample_down_db))"
    by (simp add: requests_sent_def model_defs sample_defs)
  have si: "2 < requests_sent sample_flaky_db
      (snd (webhook_000 (stub_env ?i) signed_request sample_flaky_db))"
    by (simp add: requests_sent_def model_defs sample_defs)
  have nu: "\<not> (is_invoice_paid ?u \<and> (0::nat) = 2)"
    by simp
  have ii: "is_invoice_paid ?i"
    by (simp add: is_invoice_paid_def)
  note t = rejected_request_is_status_400 [OF vu ru su] rejected_request_is_status_400 [OF vi ri si]
  show ?thesis using vu vi ru ri su si nu ii t by blast
qed

theorem store_failure_status_counterexample:
  "rejects sample_down_db 0 = Some (Error ''Error'' ''store unavailable'')
   \<and> fst (webhook_000
         (stub_env (CustomerSubscriptionUpdated
            (sample_subscription ''cus_1'' ''active'' [''price_pro''])))
         signed_request sample_down_db)
       = \<lparr>status = 400, json = ErrorBody ''store unavailable'' ''WEBHOOK_SIGNATURE_ERROR''\<rparr>
   \<and> \<not> 500 \<le> status (fst (webhook_000
         (stub_env (CustomerSubscriptionUpdated
            (sample_subscription ''cus_1'' ''active'' [''price_pro''])))
         signed_request sample_down_db))
   \<and> fst (webhook_000
         (stub_env (CustomerSubscriptionUpdated
            (sample_subscription ''cus_1'' ''active'' [''price_pro''])))
         unsigned_request sample_down_db)
       = \<lparr>status = 400,
          json = ErrorBody ''No signatures found matching the expected signature for payload''
                   ''WEBHOOK_SIGNATURE_ERROR''\<rparr>"
  by (simp add: model_defs sample_defs)

text \<open>
  C7. When the signature of an inbound payload does not verify, the endpoint fails before
  any store access: the store, with the trace of requests sent to it, is what it was, so
  the customer index is not read and no user record is written. The response is the client
  error 400 with the code \<open>WEBHOOK_SIGNATURE_ERROR\<close>. The same holds in
  \<^verbatim>\<open>src/index.ts\<close> and \<^verbatim>\<open>part_001\<close>.
\<close>

theorem signature_failure_short_circuits:
  "verify e req = Inl err \<Longrightarrow>
     snd (webhook_000 e req d) = d
     \<and> status (fst (webhook_000 e req d)) = 400
     \<and> code (json (fst (webhook_000 e req d))) = ''WEBHOOK_SIGNATURE_ERROR''
     \<and> webhook_index e req d = (catch_index err, d)
     \<and> webhook_001 e req d = (catch_index err, d)"
  by (cases err)
    (simp_all add: webhook_000_def webhook_index_def webhook_001_def verify_parsed_def
      catch_000_def catch_index_def)

theorem signature_failure_short_circuits_witness:
  "verify (stub_env (InvoicePaid (sample_invoice ''cus_1'' ''subscription_cycle''))) unsigned_request
     = Inl (Error ''StripeSignatureVerificationError''
              ''No signatures found matching the expected signature for payload'')
   \<and> webhook_000 (stub_env (InvoicePaid (sample_invoice ''cus_1'' ''subscription_cycle'')))
         unsigned_request sample_db
       = (\<lparr>status = 400,
           json = ErrorBody ''No signatures found matching the expected signature for payload''
                    ''WEBHOOK_SIGNATURE_ERROR''\<rparr>, sample_db)"
proof -
  let ?e = "stub_env (InvoicePaid (sample_invoice ''cus_1'' ''subscription_cycle''))"
  have v: "verify ?e unsigned_request
     = Inl (Error ''StripeSignatureVerificationError''
              ''No signatures found matching the expected signature for payload'')"
    by (simp add: verify_def stub_env_def unsigned_request_def or_empty_def)
  from signature_failure_short_circuits [OF v, of sample_db] v show ?thesis
    by (simp add: webhook_000_def catch_000_def)
qed

text \<open>
  C8, as the code has it. For a \<^verbatim>\<open>customer.subscription.created\<close> or
  \<^verbatim>\<open>customer.subscription.updated\<close> event the \<^verbatim>\<open>priceId\<close> written is the
  price of the first item of the subscription. When the item list is empty nothing is
  written and the answer is status 400 with the code \<open>WEBHOOK_SIGNATURE_ERROR\<close>: for a
  matched customer the handler throws the \<^verbatim>\<open>TypeError\<close> of reading a property of
  \<^verbatim>\<open>undefined\<close> while it builds the argument of \<^verbatim>\<open>update\<close>; no error
  named \<open>MalformedEvent\<close> exists. The counterexample is an update of a matched
  customer whose subscription has no item.
\<close>

theorem price_of_first_item:
  assumes "verify e req = Inr ev" and "upserted_subscription ev = Some s"
  shows "(sub_items s = [] \<longrightarrow>
            status (fst (webhook_000 e req d)) = 400
            \<and> code (json (fst (webhook_000 e req d))) = ''WEBHOOK_SIGNATURE_ERROR''
            \<and> users (snd (webhook_000 e req d)) = users d)
     \<and> (sub_items s = [] \<and> first_match d (sub_customer s) = Some userId \<longrightarrow>
            fst (switch_000 ev d) = Inl (Error ''TypeError'' ''Cannot read properties of undefined''))
     \<and> (sub_items s = p # ps \<and> first_match d (sub_customer s) = Some userId
            \<and> has_profile (node_of d userId) \<longrightarrow>
            fst (webhook_000 e req d) = \<lparr>status = 200, json = Received True\<rparr>
            \<and> child (user_field (snd (webhook_000 e req d)) userId ''subscription'') ''priceId''
                = Some (JStr p))"
proof -
  have sw: "switch_000 ev d = subscription_upserted_000 s d"
    using assms(2) by (cases ev) (simp_all add: upserted_subscription_def switch_000_def)
  have w: "webhook_000 e req d =
      (case subscription_upserted_000 s d of
         (Inl err, d') \<Rightarrow> (catch_000 err, d') | (Inr x, d') \<Rightarrow> (received, d'))"
    using assms(1) sw by (simp add: webhook_000_def)
  have a: "sub_items s = [] \<Longrightarrow>
            status (fst (webhook_000 e req d)) = 400
            \<and> code (json (fst (webhook_000 e req d))) = ''WEBHOOK_SIGNATURE_ERROR''
            \<and> users (snd (webhook_000 e req d)) = users d"
    unfolding w
    by (simp add: subscription_upserted_000_def query_by_customer_def read_user_def
        catch_000_status Let_def split: option.splits list.splits)
  have b: "fst (switch_000 ev d) = Inl (Error ''TypeError'' ''Cannot read properties of undefined'')"
    if "sub_items s = []" "first_match d (sub_customer s) = Some userId"
  proof -
    from first_match_Some [OF that(2)]
    obtain rest u where h: "answered d [0, 1, 2]"
      "filter (matches d (sub_customer s)) (user_ids d) = userId # rest"
      "users d userId = Some u"
      by blast
    show ?thesis unfolding sw using that(1) h
      by (simp add: subscription_upserted_000_def query_by_customer_def read_user_def
          type_error_def answered_def Let_def)
  qed
  have c: "fst (webhook_000 e req d) = \<lparr>status = 200, json = Received True\<rparr>
            \<and> child (user_field (snd (webhook_000 e req d)) userId ''subscription'') ''priceId''
                = Some (JStr p)"
    if "sub_items s = p # ps" "first_match d (sub_customer s) = Some userId"
      "has_profile (node_of d userId)"
  proof -
    from first_match_Some [OF that(2)]
    obtain rest u where h: "answered d [0, 1, 2]"
      "filter (matches d (sub_customer s)) (user_ids d) = userId # rest"
      "users d userId = Some u"
      by blast
    have hp: "has_profile u" using that(3) h(3) by (simp add: node_of_def)
    show ?thesis unfolding w using that(1) h hp
      by (simp add: subscription_upserted_000_def query_by_customer_def read_user_def
          update_user_def node_of_def ref_update_profile store_user_def received_def
          user_field_def subscription_data_priceId answered_def Let_def)
  qed
  from a b c show ?thesis by blast
qed

theorem price_of_first_item_witness:
  "verify (stub_env (CustomerSubscriptionUpdated (sample_subscription ''cus_1'' ''active'' [])))
     signed_request
     = Inr (CustomerSubscriptionUpdated (sample_subscription ''cus_1'' ''active'' []))
   \<and> sub_items (sample_subscription ''cus_1'' ''active'' []) = []
   \<and> first_match sample_db ''cus_1'' = Some ''u1''
   \<and> status (fst (webhook_000
         (stub_env (CustomerSubscriptionUpdated (sample_subscription ''cus_1'' ''active'' [])))
         signed_request sample_db)) = 400
   \<and> users (snd (webhook_000
         (stub_env (CustomerSubscriptionUpdated (sample_subscription ''cus_1'' ''active'' [])))
         signed_request sample_db)) = users sample_db
   \<and> fst (switch_000 (CustomerSubscriptionUpdated (sample_subscription ''cus_1'' ''active'' []))
         sample_db)
       = Inl (Error ''TypeError'' ''Cannot read properties of undefined'')
   \<and> verify (stub_env (CustomerSubscriptionUpdated
         (sample_subscription ''cus_1'' ''active'' [''price_pro'', ''price_addon''])))
     signed_request
     = Inr (CustomerSubscriptionUpdated
         (sample_subscription ''cus_1'' ''active'' [''price_pro'', ''price_addon'']))
   \<and> sub_items (sample_subscription ''cus_1'' ''active'' [''price_pro'', ''price_addon''])
       = ''price_pro'' # [''price_addon'']
   \<and> has_profile (node_of sample_db ''u1'')
   \<and> child (user_field (snd (webhook_000
         (stub_env (CustomerSubscriptionUpdated
            (sample_subscription ''cus_1'' ''active'' [''price_pro'', ''price_addon''])))
         signed_request sample_db)) ''u1'' ''subscription'') ''priceId''
       = Some (JStr ''price_pro'')"
proof -
  let ?s0 = "sample_subscription ''cus_1'' ''active'' []"
  let ?s2 = "sample_subscription ''cus_1'' ''active'' [''price_pro'', ''price_addon'']"
  have v0: "verify (stub_env (CustomerSubscriptionUpdated ?s0)) signed_request
      = Inr (CustomerSubscriptionUpdated ?s0)"
    by (simp add: verify_def stub_env_def signed_request_def or_empty_def)
  have v2: "verify (stub_env (CustomerSubscriptionUpdated ?s2)) signed_request
      = Inr (CustomerSubscriptionUpdated ?s2)"
    by (simp add: verify_def stub_env_def signed_request_def or_empty_def)
  have u0: "upserted_subscription (CustomerSubscriptionUpdated ?s0) = Some ?s0"
    and u2: "upserted_subscription (CustomerSubscriptionUpdated ?s2) = Some ?s2"
    by (simp_all add: upserted_subscription_def)
  have i0: "sub_items ?s0 = []"
    and i2: "sub_items ?s2 = ''price_pro'' # [''price_addon'']"
    and c0: "sub_customer ?s0 = ''cus_1''"
    and c2: "sub_customer ?s2 = ''cus_1''"
    by (simp_all add: sample_subscription_def)
  have fm: "first_match sample_db ''cus_1'' = Some ''u1''"
    by (simp add: first_match_def answered_def query_by_customer_def matches_def sample_defs
        Let_def)
  have hp: "has_profile (node_of sample_db ''u1'')"
    by (simp add: has_profile_iff node_of_def sample_defs)
  note t = price_of_first_item [OF v0 u0, of sample_db "''u1''", unfolded c0]
    price_of_first_item [OF v2 u2, of sample_db "''u1''" "''price_pro''" "[''price_addon'']",
      unfolded c2]
  show ?thesis using v0 v2 i0 i2 fm hp t by blast
qed

theorem empty_items_error_counterexample:
  "first_match sample_db ''cus_1'' = Some ''u1''
   \<and> fst (switch_000 (CustomerSubscriptionUpdated (sample_subscription ''cus_1'' ''active'' []))
         sample_db)
       = Inl (Error ''TypeError'' ''Cannot read properties of undefined'')
   \<and> json (fst (webhook_000
         (stub_env (CustomerSubscriptionUpdated (sample_subscription ''cus_1'' ''active'' [])))
         signed_request sample_db))
       = ErrorBody ''Cannot read properties of undefined'' ''WEBHOOK_SIGNATURE_ERROR''
   \<and> code (json (fst (webhook_000
         (stub_env (CustomerSubscriptionUpdated (sample_subscription ''cus_1'' ''active'' [])))
         signed_request sample_db)))
       \<noteq> ''MalformedEvent''"
  by (simp add: model_defs sample_defs first_match_def)

text \<open>
  C9. An event whose type is none of the five that the \<^verbatim>\<open>switch\<close> names changes
  nothing in the store, sends it no request, and is answered with status 200 and
  \<^verbatim>\<open>{received: true}\<close>.
\<close>

theorem unknown_event_passthrough:
  "verify e req = Inr (OtherEvent t) \<Longrightarrow>
     webhook_000 e req d = (\<lparr>status = 200, json = Received True\<rparr>, d)"
  by (simp add: webhook_000_def switch_000_def received_def)

theorem unknown_event_passthrough_witness:
  "verify (stub_env (OtherEvent ''charge.succeeded'')) signed_request
     = Inr (OtherEvent ''charge.succeeded'')
   \<and> webhook_000 (stub_env (OtherEvent ''charge.succeeded'')) signed_request sample_db
       = (\<lparr>status = 200, json = Received True\<rparr>, sample_db)"
proof -
  have v: "verify (stub_env (OtherEvent ''charge.succeeded'')) signed_request
     = Inr (OtherEvent ''charge.succeeded'')"
    by (simp add: verify_def stub_env_def signed_request_def or_empty_def)
  from unknown_event_passthrough [OF v, of sample_db] v show ?thesis by simp
qed

text \<open>
  C10, as the code has it. A record that a webhook call changes has \<open>free\<close> or
  \<open>pro\<close> as its \<^verbatim>\<open>plan\<close> afterwards, unless the event is
  \<^verbatim>\<open>invoice.paid\<close>, whose handler writes \<^verbatim>\<open>invoices\<close> and never
  \<^verbatim>\<open>plan\<close>; and whenever the \<^verbatim>\<open>plan\<close> of a record is not what it was, it is
  one of the two, so that no handler stores another value. The counterexample is
  \<^verbatim>\<open>invoice.paid\<close> for a record that has no \<^verbatim>\<open>plan\<close>: the record is changed
  and has no \<^verbatim>\<open>plan\<close> afterwards.
\<close>

theorem stored_plan_is_free_or_pro:
  assumes "verify e req = Inr ev"
  shows "(users (snd (webhook_000 e req d)) userId \<noteq> users d userId \<and> \<not> is_invoice_paid ev
            \<longrightarrow> user_field (snd (webhook_000 e req d)) userId ''plan'' \<in> plan_values)
     \<and> (user_field (snd (webhook_000 e req d)) userId ''plan'' \<noteq> user_field d userId ''plan''
            \<longrightarrow> user_field (snd (webhook_000 e req d)) userId ''plan'' \<in> plan_values)"
proof -
  let ?d' = "snd (switch_000 ev d)"
  have d': "snd (webhook_000 e req d) = ?d'"
    using assms by (simp add: webhook_db)
  have us: "users ?d' = run_effect (needed ev) (effect_000 ev) d"
    by (rule switch_000_users)
  from run_effect_cases [of "needed ev" "effect_000 ev" d]
  have "(users ?d' userId \<noteq> users d userId \<and> \<not> is_invoice_paid ev
            \<longrightarrow> user_field ?d' userId ''plan'' \<in> plan_values)
     \<and> (user_field ?d' userId ''plan'' \<noteq> user_field d userId ''plan''
            \<longrightarrow> user_field ?d' userId ''plan'' \<in> plan_values)"
  proof
    assume "run_effect (needed ev) (effect_000 ev) d = users d"
    then show ?thesis using us by (simp add: user_field_def)
  next
    assume "\<exists>c g k u u'. effect_000 ev = Some (c, g) \<and> users d k = Some u
      \<and> u ''stripeCustomerId'' = Some (JStr c) \<and> g u = Some u'
      \<and> run_effect (needed ev) (effect_000 ev) d = (users d)(k \<mapsto> u')"
    then obtain c g k u u' where h: "effect_000 ev = Some (c, g)" "users d k = Some u"
      "g u = Some u'" "run_effect (needed ev) (effect_000 ev) d = (users d)(k \<mapsto> u')"
      by blast
    from effect_plan [OF h(1,3)] show ?thesis
      using us h(2,4) by (auto simp: user_field_def split: if_splits)
  qed
  then show ?thesis unfolding d' .
qed

theorem stored_plan_is_free_or_pro_witness:
  "verify (stub_env (CustomerSubscriptionUpdated
             (sample_subscription ''cus_1'' ''active'' [''price_pro''])))
     signed_request
     = Inr (CustomerSubscriptionUpdated (sample_subscription ''cus_1'' ''active'' [''price_pro'']))
   \<and> users (snd (webhook_000
          (stub_env (CustomerSubscriptionUpdated
             (sample_subscription ''cus_1'' ''active'' [''price_pro''])))
          signed_request sample_db)) ''u1''
       \<noteq> users sample_db ''u1''
   \<and> \<not> is_invoice_paid
         (CustomerSubscriptionUpdated (sample_subscription ''cus_1'' ''active'' [''price_pro'']))
   \<and> user_field (snd (webhook_000
          (stub_env (CustomerSubscriptionUpdated
             (sample_subscription ''cus_1'' ''active'' [''price_pro''])))
          signed_request sample_db)) ''u1'' ''plan''
       \<noteq> user_field sample_db ''u1'' ''plan''
   \<and> user_field (snd (webhook_000
          (stub_env (CustomerSubscriptionUpdated
             (sample_subscription ''cus_1'' ''active'' [''price_pro''])))
          signed_request sample_db)) ''u1'' ''plan''
       \<in> plan_values"
proof -
  let ?ev = "CustomerSubscriptionUpdated (sample_subscription ''cus_1'' ''active'' [''price_pro''])"
  let ?d' = "snd (webhook_000 (stub_env ?ev) signed_request sample_db)"
  have v: "verify (stub_env ?ev) signed_request = Inr ?ev"
    by (simp add: verify_def stub_env_def signed_request_def or_empty_def)
  have p': "user_field ?d' ''u1'' ''plan'' = Some (JStr ''pro'')"
    by (simp add: model_defs sample_defs)
  have p: "user_field sample_db ''u1'' ''plan'' = Some (JStr ''free'')"
    by (simp add: user_field_def sample_defs)
  have ch: "users ?d' ''u1'' \<noteq> users sample_db ''u1''"
  proof
    assume "users ?d' ''u1'' = users sample_db ''u1''"
    then have "user_field ?d' ''u1'' ''plan'' = user_field sample_db ''u1'' ''plan''"
      by (simp only: user_field_def)
    then show False unfolding p p' by simp
  qed
  have ni: "\<not> is_invoice_paid ?ev"
    by (simp add: is_invoice_paid_def)
  have df: "user_field ?d' ''u1'' ''plan'' \<noteq> user_field sample_db ''u1'' ''plan''"
    unfolding p p' by simp
  from stored_plan_is_free_or_pro [OF v, of sample_db "''u1''"] have
    "user_field ?d' ''u1'' ''plan'' \<in> plan_values"
    using ch ni by blast
  then show ?thesis using v ch ni df by blast
qed

theorem invoice_paid_keeps_plan_counterexample:
  "user_field sample_planless_db ''u1'' ''invoices'' = None
   \<and> user_field (snd (webhook_000
         (stub_env (InvoicePaid (sample_invoice ''cus_1'' ''subscription_cycle'')))
         signed_request sample_planless_db)) ''u1'' ''invoices'' \<noteq> None
   \<and> users (snd (webhook_000
         (stub_env (InvoicePaid (sample_invoice ''cus_1'' ''subscription_cycle'')))
         signed_request sample_planless_db)) ''u1'' \<noteq> users sample_planless_db ''u1''
   \<and> user_field (snd (webhook_000
         (stub_env (InvoicePaid (sample_invoice ''cus_1'' ''subscription_cycle'')))
         signed_request sample_planless_db)) ''u1'' ''plan'' = None
   \<and> user_field (snd (webhook_000
         (stub_env (InvoicePaid (sample_invoice ''cus_1'' ''subscription_cycle'')))
         signed_request sample_planless_db)) ''u1'' ''plan'' \<notin> plan_values"
proof -
  let ?d' = "snd (webhook_000
         (stub_env (InvoicePaid (sample_invoice ''cus_1'' ''subscription_cycle'')))
         signed_request sample_planless_db)"
  have a: "user_field sample_planless_db ''u1'' ''invoices'' = None"
    by (simp add: user_field_def sample_defs)
  have b: "user_field ?d' ''u1'' ''invoices'' \<noteq> None"
    by (simp add: model_defs sample_defs put_invoice_def)
  have c: "users ?d' ''u1'' \<noteq> users sample_planless_db ''u1''"
  proof
    assume "users ?d' ''u1'' = users sample_planless_db ''u1''"
    then have "user_field ?d' ''u1'' ''invoices'' = user_field sample_planless_db ''u1'' ''invoices''"
      by (simp only: user_field_def)
    then show False using a b by simp
  qed
  have p: "user_field ?d' ''u1'' ''plan'' = None"
    by (simp add: model_defs sample_defs put_invoice_def)
  have q: "user_field ?d' ''u1'' ''plan'' \<notin> plan_values"
    unfolding p by (simp add: plan_values_def)
  show ?thesis using a b c p q by blast
qed

end
